theory Spec2Isabelle
  imports Main "HOL-Library.Word"
begin

section \<open>JavaScript values\<close>

text \<open>
  A JavaScript string is a sequence of 16-bit code units; \<open>length\<close> counts them, as
  \<^verbatim>\<open>.length\<close> does. Numbers are restricted to the integers (no fraction, no NaN): the
  pages only store and compare identities and years. An object is the list of its own
  properties in insertion order; its keys are the ASCII property names of the source.
\<close>

type_synonym jsstring = "16 word list"

datatype jsval =
    JUndefined
  | JNull
  | JBool bool
  | JNum int
  | JStr jsstring
  | JArr "jsval list"
  | JObj "(string \<times> jsval) list"

text \<open>\<^verbatim>\<open>!!v\<close> (what \<^verbatim>\<open>Boolean\<close>, \<^verbatim>\<open>!\<close> and \<^verbatim>\<open>||\<close> test).\<close>

fun truthy :: "jsval \<Rightarrow> bool" where
  "truthy JUndefined = False"
| "truthy JNull = False"
| "truthy (JBool b) = b"
| "truthy (JNum n) = (n \<noteq> 0)"
| "truthy (JStr s) = (s \<noteq> [])"
| "truthy (JArr xs) = True"
| "truthy (JObj kvs) = True"

text \<open>\<^verbatim>\<open>typeof v === 'object'\<close>: objects, arrays and \<^verbatim>\<open>null\<close>.\<close>

fun typeof_object :: "jsval \<Rightarrow> bool" where
  "typeof_object JNull = True"
| "typeof_object (JArr xs) = True"
| "typeof_object (JObj kvs) = True"
| "typeof_object v = False"

text \<open>
  \<^verbatim>\<open>v.k\<close> for a named property \<open>k\<close>: the property's value, \<^verbatim>\<open>undefined\<close> when the
  object has none. An array (of parsed JSON) has none of the names the pages read.
\<close>

fun dot :: "jsval \<Rightarrow> string \<Rightarrow> jsval" where
  "dot (JObj kvs) k = (case map_of kvs k of None \<Rightarrow> JUndefined | Some v \<Rightarrow> v)"
| "dot v k = JUndefined"

text \<open>\<^verbatim>\<open>a ?? b\<close>: \<open>b\<close> when \<open>a\<close> is \<^verbatim>\<open>null\<close> or \<^verbatim>\<open>undefined\<close>.\<close>

fun nullish :: "jsval \<Rightarrow> bool" where
  "nullish JUndefined = True"
| "nullish JNull = True"
| "nullish v = False"

definition coalesce :: "jsval \<Rightarrow> jsval \<Rightarrow> jsval" where
  "coalesce a b = (if nullish a then b else a)"

text \<open>String literals of the source, as code units.\<close>

definition units :: "string \<Rightarrow> jsstring" where
  "units s = map (\<lambda>c. word_of_nat (of_char c)) s"

definition Titulo_sem_nome :: jsstring where
  "Titulo_sem_nome = units ''T'' @ [237] @ units ''tulo sem nome''"

definition Autor_desconhecido :: jsstring where
  "Autor_desconhecido = units ''Autor desconhecido''"

definition Outros :: jsstring where
  "Outros = units ''Outros''"

definition travessao :: jsstring where
  "travessao = [8212]"

section \<open>catalogo.js: normalisation\<close>

text \<open>
  \<^verbatim>\<open>normalizarLivro(raw)\<close>: \<^verbatim>\<open>null\<close> unless \<open>raw\<close> is truthy and of type object; otherwise
  the object \<^verbatim>\<open>{ id, titulo, autor, genero, ano, descricao }\<close>, each field the first
  non-nullish of its aliases, or its default.
\<close>

definition normalizarLivro :: "jsval \<Rightarrow> jsval" where
  "normalizarLivro raw =
     (if \<not> truthy raw \<or> \<not> typeof_object raw then JNull
      else
        let id' = coalesce (coalesce (dot raw ''id'') (dot raw ''ID'')) JNull;
            titulo = coalesce (coalesce (dot raw ''titulo'') (dot raw ''title''))
                       (JStr Titulo_sem_nome);
            autor = coalesce (coalesce (dot raw ''autor'') (dot raw ''author''))
                      (JStr Autor_desconhecido);
            genero = coalesce (coalesce (coalesce (dot raw ''genero'') (dot raw ''genre''))
                       (dot raw ''tipo'')) (JStr Outros);
            ano = coalesce (coalesce (coalesce (dot raw ''ano'') (dot raw ''year''))
                    (dot raw ''publicationYear'')) (JStr travessao);
            descricao = coalesce (coalesce (coalesce (dot raw ''descricao'') (dot raw ''body''))
                          (dot raw ''description'')) (JStr [])
        in JObj [(''id'', id'), (''titulo'', titulo), (''autor'', autor),
                 (''genero'', genero), (''ano'', ano), (''descricao'', descricao)])"

text \<open>
  \<^verbatim>\<open>normalizarLista(rawList)\<close> is \<^verbatim>\<open>(rawList || []).map(normalizarLivro).filter(Boolean)\<close>.
  A truthy \<open>rawList\<close> that is not an array has no \<^verbatim>\<open>map\<close>: the call throws a TypeError,
  the value \<open>None\<close> here.
\<close>

definition normalizarLista :: "jsval \<Rightarrow> jsval list option" where
  "normalizarLista rawList =
     (case (if truthy rawList then rawList else JArr []) of
        JArr xs \<Rightarrow> Some (filter truthy (map normalizarLivro xs))
      | _ \<Rightarrow> None)"


section \<open>The array of books and what the pages show\<close>

text \<open>
  The two pages with a form (pagina-principal.js and script.js) keep the records in
  the array \<^verbatim>\<open>books\<close>. A book is an object with an \<^verbatim>\<open>id\<close> and further properties
  (\<^verbatim>\<open>title\<close>, \<^verbatim>\<open>body\<close>, \<^verbatim>\<open>author\<close>, and on the main page \<^verbatim>\<open>genre\<close> and \<^verbatim>\<open>year\<close>).

  Identities are integers: the identities JSONPlaceholder assigns and the negated
  timestamps the pages make. The handlers compare identities with \<^verbatim>\<open>===\<close>, with
  \<^verbatim>\<open>==\<close> against the hidden form field (a string, the decimal rendering of the
  identity it was filled from) and by \<^verbatim>\<open>String(a) === String(b)\<close>; on integers the
  three agree with equality, which is what the definitions below use. The handlers
  take the identity as the integer. The form data never has a key \<^verbatim>\<open>id\<close>.

  Objects are values here. The only write into an existing object is
  \<^verbatim>\<open>books[idx].id = serverBook.id\<close>, on an object found in the array; every other
  holder of a reference (\<^verbatim>\<open>removed\<close> in handleDelete) holds an object that is not in
  the array at that moment, so no alias sees the write.
\<close>

type_synonym properties = "(string \<times> jsval) list"

record book =
  ident :: int
  props :: properties

text \<open>\<^verbatim>\<open>o[k] = v\<close> on the properties: an own key keeps its place, a new one goes last.\<close>

fun assign_prop :: "properties \<Rightarrow> string \<Rightarrow> jsval \<Rightarrow> properties" where
  "assign_prop [] k v = [(k, v)]"
| "assign_prop ((k', v') # kvs) k v =
     (if k' = k then (k, v) # kvs else (k', v') # assign_prop kvs k v)"

text \<open>\<^verbatim>\<open>{ ...a, ...b }\<close>, on the properties other than \<^verbatim>\<open>id\<close>.\<close>

definition spread :: "properties \<Rightarrow> properties \<Rightarrow> properties" where
  "spread a b = foldl (\<lambda>acc (k, v). assign_prop acc k v) a b"

text \<open>\<^verbatim>\<open>b.k\<close> on a book.\<close>

definition prop_of :: "book \<Rightarrow> string \<Rightarrow> jsval" where
  "prop_of b k = dot (JObj (props b)) k"

text \<open>\<^verbatim>\<open>xs.findIndex(p)\<close>; \<open>None\<close> is the result \<^verbatim>\<open>-1\<close>.\<close>

fun findIndex :: "('a \<Rightarrow> bool) \<Rightarrow> 'a list \<Rightarrow> nat option" where
  "findIndex p [] = None"
| "findIndex p (x # xs) = (if p x then Some 0 else map_option Suc (findIndex p xs))"

text \<open>
  \<^verbatim>\<open>xs[i] = v\<close>. Within the array it replaces the element, at its end it appends one.
  Beyond the end JavaScript leaves holes between the old end and \<open>i\<close>; a list has no
  holes, and that outcome is the value \<open>None\<close>.
\<close>

definition store_at :: "nat \<Rightarrow> 'a \<Rightarrow> 'a list \<Rightarrow> 'a list option" where
  "store_at i v xs =
     (if i < length xs then Some (xs[i := v])
      else if i = length xs then Some (xs @ [v])
      else None)"

text \<open>
  \<^verbatim>\<open>xs.splice(i, 1)\<close> and \<^verbatim>\<open>xs.splice(i, 0, v)\<close>; a start beyond the end is the end.
\<close>

definition splice_out :: "nat \<Rightarrow> 'a list \<Rightarrow> 'a list" where
  "splice_out i xs = take i xs @ drop (Suc i) xs"

definition splice_in :: "nat \<Rightarrow> 'a \<Rightarrow> 'a list \<Rightarrow> 'a list" where
  "splice_in i v xs = take i xs @ v # drop i xs"

text \<open>
  What a handler tells the user: an \<^verbatim>\<open>alert\<close> of the main page, or a
  \<^verbatim>\<open>showMessage(text, type)\<close> of script.js, whose error texts end in the
  \<^verbatim>\<open>err.message\<close> of what was thrown. \<^verbatim>\<open>console.error\<close> is not a notification.
\<close>

datatype cause = Fetch_rejected | Status_not_ok | Json_rejected

datatype alert_text =
    Ano_4_numeros
  | Titulo_3_caracteres
  | Selecione_genero
  | Livro_nao_encontrado
  | Falha_salvar_livro
  | Falha_salvar_edicao
  | Falha_excluir_livro

datatype message_text =
    Erro_buscar cause
  | Corrija_erros
  | Criando
  | Criado_sucesso
  | Erro_criar cause
  | Editar_nao_encontrado
  | Atualizando
  | Atualizado_sucesso
  | Erro_atualizar cause
  | Excluir_nao_encontrado
  | Excluindo
  | Excluido_sucesso
  | Erro_excluir cause

datatype level = Info | Success | Err

datatype notice = Alert alert_text | Message message_text level

text \<open>Every alert of the main page reports a failure.\<close>

fun is_error :: "notice \<Rightarrow> bool" where
  "is_error (Alert a) = True"
| "is_error (Message m l) = (l = Err)"

text \<open>
  A call of \<^verbatim>\<open>fetch\<close>: the method, and the identity in the URL. What comes back: the
  promise rejects (transport failure), or it resolves with a response whose
  \<^verbatim>\<open>ok\<close> says whether the status is in the success range and whose \<^verbatim>\<open>json()\<close>
  gives the parsed body, or rejects (\<open>None\<close>) when the body is not JSON.
\<close>

datatype request = GET_list | POST | PUT int | DELETE int

datatype 'a response = Rejected | Resolved bool "'a option"

text \<open>
  The state of a page: the array, the item \<^verbatim>\<open>livros\<close> of localStorage (the array whose
  JSON text the item holds; \<open>None\<close> when there is no item), the books the element
  \<^verbatim>\<open>listaLivros\<close> shows, and the logs of the notifications given and the requests
  sent. The loading overlay, the popup and the form fields' reset are not modelled.
  The round trip of the array through JSON text is taken as the identity, as it is
  on books whose properties are strings and numbers.
\<close>

record state =
  books :: "book list"
  livros :: "book list option"
  listaLivros :: "book list"
  notices :: "notice list"
  requests :: "request list"

definition alert :: "alert_text \<Rightarrow> state \<Rightarrow> state" where
  "alert a st = st\<lparr>notices := notices st @ [Alert a]\<rparr>"

definition showMessage :: "message_text \<Rightarrow> level \<Rightarrow> state \<Rightarrow> state" where
  "showMessage m l st = st\<lparr>notices := notices st @ [Message m l]\<rparr>"

definition fetch :: "request \<Rightarrow> state \<Rightarrow> state" where
  "fetch r st = st\<lparr>requests := requests st @ [r]\<rparr>"

text \<open>
  An asynchronous handler runs up to its \<^verbatim>\<open>await\<close>, and the rest of it runs when the
  awaited promise settles, on the array as it is then. What the rest of the handler
  keeps from the first part is its closure: \<^verbatim>\<open>tempId\<close> for a creation, \<^verbatim>\<open>idx\<close> and
  \<^verbatim>\<open>oldBook\<close> for an update, \<^verbatim>\<open>idx\<close> and \<^verbatim>\<open>removed\<close> for a deletion.
\<close>

datatype pending =
    Listing
  | Drawing
  | Creating int
  | Updating nat book
  | Deleting nat book

section \<open>pagina-principal.js\<close>

text \<open>
  \<^verbatim>\<open>renderBooks()\<close>: the cards of \<^verbatim>\<open>books.slice(0, 4)\<close>; with no card to show it writes
  the empty notice and returns, otherwise it ends with
  \<^verbatim>\<open>localStorage.setItem('livros', JSON.stringify(books))\<close>.
\<close>

definition renderBooks :: "state \<Rightarrow> state" where
  "renderBooks st =
     (let livrosMostrados = take 4 (books st) in
      if length livrosMostrados = 0 then st\<lparr>listaLivros := []\<rparr>
      else st\<lparr>listaLivros := livrosMostrados, livros := Some (books st)\<rparr>)"

text \<open>
  The page's first statement, \<^verbatim>\<open>books = JSON.parse(localStorage.getItem('livros')) || []\<close>.
\<close>

definition page_load :: "book list option \<Rightarrow> state" where
  "page_load slot =
     \<lparr>books = (case slot of None \<Rightarrow> [] | Some bs \<Rightarrow> bs), livros = slot,
      listaLivros = [], notices = [], requests = []\<rparr>"

text \<open>
  \<^verbatim>\<open>handleCreate(bookData)\<close> up to its \<^verbatim>\<open>await fetch\<close>. \<open>now\<close> is the value of
  \<^verbatim>\<open>Date.now()\<close>.
\<close>

definition handleCreate :: "nat \<Rightarrow> properties \<Rightarrow> state \<Rightarrow> pending \<times> state" where
  "handleCreate now bookData st =
     (let tempId = - int now;
          optimisticBook = \<lparr>ident = tempId, props = bookData\<rparr>;
          st1 = renderBooks (st\<lparr>books := optimisticBook # books st\<rparr>)
      in (Creating tempId, fetch POST st1))"

text \<open>
  What \<^verbatim>\<open>await fetch(...)\<close> followed by \<^verbatim>\<open>await res.json()\<close> gives in a \<^verbatim>\<open>try\<close> block
  of the main page: the parsed body, or \<open>None\<close> when either promise rejects and the
  \<^verbatim>\<open>catch\<close> block runs. \<^verbatim>\<open>res.ok\<close> is not read.
\<close>

fun awaited :: "'a response \<Rightarrow> 'a option" where
  "awaited Rejected = None"
| "awaited (Resolved ok body) = body"

text \<open>
  The rest of \<^verbatim>\<open>handleCreate\<close>: the \<^verbatim>\<open>try\<close> block from \<^verbatim>\<open>res.json()\<close> on, or the
  \<^verbatim>\<open>catch\<close> block.
\<close>

definition handleCreate_settled :: "int \<Rightarrow> book response \<Rightarrow> state \<Rightarrow> state" where
  "handleCreate_settled tempId res st =
     (case awaited res of
        Some serverBook \<Rightarrow>
          (case findIndex (\<lambda>b. ident b = tempId) (books st) of
             Some idx \<Rightarrow>
               renderBooks
                 (st\<lparr>books := (books st)[idx := (books st ! idx)\<lparr>ident := ident serverBook\<rparr>]\<rparr>)
           | None \<Rightarrow> st)
      | None \<Rightarrow>
          alert Falha_salvar_livro
            (renderBooks (st\<lparr>books := filter (\<lambda>b. ident b \<noteq> tempId) (books st)\<rparr>)))"

text \<open>\<^verbatim>\<open>handleUpdate(id, updatedData)\<close> up to its \<^verbatim>\<open>await fetch\<close>.\<close>

definition handleUpdate :: "int \<Rightarrow> properties \<Rightarrow> state \<Rightarrow> pending option \<times> state" where
  "handleUpdate i updatedData st =
     (case findIndex (\<lambda>b. ident b = i) (books st) of
        None \<Rightarrow> (None, alert Livro_nao_encontrado st)
      | Some idx \<Rightarrow>
          let oldBook = books st ! idx;
              st1 = renderBooks
                (st\<lparr>books := (books st)[idx := oldBook\<lparr>props := spread (props oldBook) updatedData\<rparr>]\<rparr>)
          in (Some (Updating idx oldBook), fetch (PUT i) st1))"

text \<open>
  The rest of \<^verbatim>\<open>handleUpdate\<close>: nothing when \<^verbatim>\<open>fetch\<close> resolves, the \<^verbatim>\<open>catch\<close> block
  when it rejects. The response is not read.
\<close>

definition handleUpdate_settled :: "nat \<Rightarrow> book \<Rightarrow> 'a response \<Rightarrow> state \<Rightarrow> state option" where
  "handleUpdate_settled idx oldBook res st =
     (case res of
        Resolved ok body \<Rightarrow> Some st
      | Rejected \<Rightarrow>
          (case store_at idx oldBook (books st) of
             None \<Rightarrow> None
           | Some bs \<Rightarrow> Some (alert Falha_salvar_edicao (renderBooks (st\<lparr>books := bs\<rparr>)))))"

text \<open>\<^verbatim>\<open>handleDelete(id)\<close> up to its \<^verbatim>\<open>await fetch\<close>.\<close>

definition handleDelete :: "int \<Rightarrow> state \<Rightarrow> pending option \<times> state" where
  "handleDelete i st =
     (case findIndex (\<lambda>b. ident b = i) (books st) of
        None \<Rightarrow> (None, st)
      | Some idx \<Rightarrow>
          let removed = books st ! idx;
              st1 = renderBooks (st\<lparr>books := splice_out idx (books st)\<rparr>)
          in (Some (Deleting idx removed), fetch (DELETE i) st1))"

text \<open>The rest of \<^verbatim>\<open>handleDelete\<close>.\<close>

definition handleDelete_settled :: "nat \<Rightarrow> book \<Rightarrow> 'a response \<Rightarrow> state \<Rightarrow> state" where
  "handleDelete_settled idx removed res st =
     (case res of
        Resolved ok body \<Rightarrow> st
      | Rejected \<Rightarrow>
          alert Falha_excluir_livro
            (renderBooks (st\<lparr>books := splice_in idx removed (books st)\<rparr>)))"

text \<open>
  \<^verbatim>\<open>s.trim()\<close> strips the white space and line terminators of ECMAScript at both
  ends; \<^verbatim>\<open>/^\d{4}$/.test(s)\<close> holds for exactly four ASCII digits.
\<close>

definition is_space :: "16 word \<Rightarrow> bool" where
  "is_space c =
     (c \<in> set [9, 10, 11, 12, 13, 32, 160, 5760, 8232, 8233, 8239, 8287, 12288, 65279]
      \<or> (8192 \<le> c \<and> c \<le> 8202))"

definition trim :: "jsstring \<Rightarrow> jsstring" where
  "trim s = rev (dropWhile is_space (rev (dropWhile is_space s)))"

definition four_digits :: "jsstring \<Rightarrow> bool" where
  "four_digits s = (length s = 4 \<and> list_all (\<lambda>c. 48 \<le> c \<and> c \<le> 57) s)"

text \<open>
  The values of the form's fields when it is submitted. The hidden field
  \<^verbatim>\<open>livroId\<close> is empty (\<open>None\<close>) or holds an identity.
\<close>

record form =
  inputId :: "int option"
  inputTitulo :: jsstring
  inputAutor :: jsstring
  inputDescricao :: jsstring
  inputAno :: jsstring
  inputGenero :: jsstring

text \<open>The form's \<^verbatim>\<open>submit\<close> listener of the main page, up to the handler's \<^verbatim>\<open>await\<close>.\<close>

definition submit :: "nat \<Rightarrow> form \<Rightarrow> state \<Rightarrow> pending option \<times> state" where
  "submit now f st =
     (if \<not> four_digits (trim (inputAno f)) then (None, alert Ano_4_numeros st)
      else if length (trim (inputTitulo f)) < 3 then (None, alert Titulo_3_caracteres st)
      else if trim (inputGenero f) = [] then (None, alert Selecione_genero st)
      else
        let data = [(''title'', JStr (trim (inputTitulo f))),
                    (''author'', JStr (trim (inputAutor f))),
                    (''body'', JStr (trim (inputDescricao f))),
                    (''year'', JStr (trim (inputAno f))),
                    (''genre'', JStr (trim (inputGenero f)))]
        in case inputId f of
             Some i \<Rightarrow> handleUpdate i data st
           | None \<Rightarrow> (case handleCreate now data st of (p, st') \<Rightarrow> (Some p, st')))"

text \<open>
  \<^verbatim>\<open>fetchBooks()\<close> of the main page. With books from localStorage it waits 50 ms and
  renders; otherwise it requests the list. When the list arrives, each item becomes a
  book with a genre and a year drawn by \<^verbatim>\<open>Math.random\<close>, and the page renders 50 ms
  later. The draws are a parameter: \<open>draws k\<close> gives two numbers for the item at index
  \<open>k\<close>, reduced to the ranges of \<^verbatim>\<open>Math.floor(Math.random() * 5)\<close> and
  \<^verbatim>\<open>Math.floor(Math.random() * 25)\<close>. A failure is only logged to the console.
\<close>

definition generosValidos :: "jsstring list" where
  "generosValidos =
     [units ''Romance'', units ''A'' @ [231, 227] @ units ''o'', units ''Aventura'',
      units ''Terror'', units ''Fic'' @ [231, 227] @ units ''o'']"

definition Desconhecido :: jsstring where
  "Desconhecido = units ''Desconhecido''"

definition fetchBooks :: "state \<Rightarrow> pending \<times> state" where
  "fetchBooks st =
     (if length (books st) > 0 then (Drawing, st) else (Listing, fetch GET_list st))"

definition livro_of_item :: "nat \<times> nat \<Rightarrow> book \<Rightarrow> book" where
  "livro_of_item d item =
     \<lparr>ident = ident item,
      props = [(''title'', prop_of item ''title''),
               (''body'', prop_of item ''body''),
               (''author'', if truthy (prop_of item ''author'') then prop_of item ''author''
                            else JStr Desconhecido),
               (''genre'', JStr (generosValidos ! (fst d mod length generosValidos))),
               (''year'', JNum (2000 + int (snd d mod 25)))]\<rparr>"

definition fetchBooks_settled ::
  "(nat \<Rightarrow> nat \<times> nat) \<Rightarrow> book list response \<Rightarrow> state \<Rightarrow> pending option \<times> state" where
  "fetchBooks_settled draws res st =
     (case awaited res of
        Some data \<Rightarrow>
          (Some Drawing,
           st\<lparr>books := map (\<lambda>(k, item). livro_of_item (draws k) item) (enumerate 0 data)\<rparr>)
      | None \<Rightarrow> (None, st))"

subsection \<open>A handler run to its end\<close>

text \<open>
  A handler from its call to the end of its \<^verbatim>\<open>try\<close> statement, with no other task of
  the page between its two parts: the second part gets the closure of the first.
\<close>

definition create :: "nat \<Rightarrow> properties \<Rightarrow> book response \<Rightarrow> state \<Rightarrow> state" where
  "create now bookData res st =
     (case handleCreate now bookData st of
        (Creating tempId, st1) \<Rightarrow> handleCreate_settled tempId res st1
      | (p, st1) \<Rightarrow> st1)"

definition update :: "int \<Rightarrow> properties \<Rightarrow> book response \<Rightarrow> state \<Rightarrow> state option" where
  "update i updatedData res st =
     (case handleUpdate i updatedData st of
        (Some (Updating idx oldBook), st1) \<Rightarrow> handleUpdate_settled idx oldBook res st1
      | (p, st1) \<Rightarrow> Some st1)"

definition delete :: "int \<Rightarrow> book response \<Rightarrow> state \<Rightarrow> state" where
  "delete i res st =
     (case handleDelete i st of
        (Some (Deleting idx removed), st1) \<Rightarrow> handleDelete_settled idx removed res st1
      | (p, st1) \<Rightarrow> st1)"

subsection \<open>The events of the main page\<close>

text \<open>
  The page runs one task at a time: a submission of the form, a confirmed click on a
  card's delete button, the settling of a pending \<^verbatim>\<open>fetch\<close>, or the 50 ms timer of
  \<^verbatim>\<open>fetchBooks\<close>. A configuration is the state and the list of what is pending, and
  \<open>Settled k\<close> settles the pending entry at position \<open>k\<close>, whichever it is: the order
  in which requests settle is the network's. \<open>step\<close> is \<open>None\<close> when position \<open>k\<close>
  holds no entry of the event's kind, or when a write leaves holes in the array.
\<close>

datatype event =
    Submit nat form
  | Excluir int
  | Settled nat "book response"
  | Listed nat "nat \<Rightarrow> nat \<times> nat" "book list response"
  | Timer nat

type_synonym config = "state \<times> pending list"

definition await :: "pending option \<times> state \<Rightarrow> pending list \<Rightarrow> config" where
  "await r ps = (case r of (None, st) \<Rightarrow> (st, ps) | (Some p, st) \<Rightarrow> (st, ps @ [p]))"

fun step :: "event \<Rightarrow> config \<Rightarrow> config option" where
  "step (Submit now f) (st, ps) = Some (await (submit now f st) ps)"
| "step (Excluir i) (st, ps) = Some (await (handleDelete i st) ps)"
| "step (Settled k res) (st, ps) =
     (if k < length ps then
        (case ps ! k of
           Creating tempId \<Rightarrow> Some (handleCreate_settled tempId res st, splice_out k ps)
         | Updating idx oldBook \<Rightarrow>
             map_option (\<lambda>st'. (st', splice_out k ps)) (handleUpdate_settled idx oldBook res st)
         | Deleting idx removed \<Rightarrow> Some (handleDelete_settled idx removed res st, splice_out k ps)
         | _ \<Rightarrow> None)
      else None)"
| "step (Listed k draws res) (st, ps) =
     (if k < length ps \<and> ps ! k = Listing
      then Some (await (fetchBooks_settled draws res st) (splice_out k ps))
      else None)"
| "step (Timer k) (st, ps) =
     (if k < length ps \<and> ps ! k = Drawing then Some (renderBooks st, splice_out k ps)
      else None)"

fun run :: "event list \<Rightarrow> config \<Rightarrow> config option" where
  "run [] c = Some c"
| "run (e # es) c = (case step e c of None \<Rightarrow> None | Some c' \<Rightarrow> run es c')"

text \<open>The page once its script has run: the array read, \<^verbatim>\<open>fetchBooks()\<close> called.\<close>

definition start :: "book list option \<Rightarrow> config" where
  "start slot = (case fetchBooks (page_load slot) of (p, st) \<Rightarrow> (st, [p]))"

section \<open>script.js\<close>

text \<open>
  The earlier page: it shows every book, keeps nothing in localStorage, tells the
  user through \<^verbatim>\<open>showMessage\<close>, and throws on a response whose \<^verbatim>\<open>ok\<close> is false.
\<close>

definition renderBooks_script :: "state \<Rightarrow> state" where
  "renderBooks_script st =
     (if length (books st) = 0 then st\<lparr>listaLivros := []\<rparr>
      else st\<lparr>listaLivros := books st\<rparr>)"

definition findBookIndexById :: "int \<Rightarrow> book list \<Rightarrow> nat option" where
  "findBookIndexById i bs = findIndex (\<lambda>b. ident b = i) bs"

definition validarTitulo :: "form \<Rightarrow> bool" where
  "validarTitulo f = (\<not> length (trim (inputTitulo f)) < 3)"

definition validarForm :: "form \<Rightarrow> bool" where
  "validarForm f = validarTitulo f"

text \<open>
  What a \<^verbatim>\<open>try\<close> block of script.js gets from
  \<^verbatim>\<open>await fetch(...)\<close>, \<^verbatim>\<open>if (!res.ok) throw ...\<close>, \<^verbatim>\<open>await res.json()\<close>:
  the parsed body, or what was thrown.
\<close>

fun tried :: "'a response \<Rightarrow> cause + 'a" where
  "tried Rejected = Inl Fetch_rejected"
| "tried (Resolved False body) = Inl Status_not_ok"
| "tried (Resolved True None) = Inl Json_rejected"
| "tried (Resolved True (Some v)) = Inr v"

definition fetchBooks_script :: "state \<Rightarrow> pending \<times> state" where
  "fetchBooks_script st = (Listing, fetch GET_list st)"

definition fetchBooks_script_settled :: "book list response \<Rightarrow> state \<Rightarrow> state" where
  "fetchBooks_script_settled res st =
     (case tried res of
        Inr data \<Rightarrow>
          renderBooks_script
            (st\<lparr>books :=
               map (\<lambda>item.
                 \<lparr>ident = ident item,
                  props = [(''title'', prop_of item ''title''),
                           (''body'', prop_of item ''body''),
                           (''author'', if truthy (prop_of item ''author'')
                                        then prop_of item ''author'' else JStr [])]\<rparr>) data\<rparr>)
      | Inl c \<Rightarrow> showMessage (Erro_buscar c) Err st)"

definition handleCreate_script :: "nat \<Rightarrow> properties \<Rightarrow> state \<Rightarrow> pending \<times> state" where
  "handleCreate_script now bookData st =
     (let tempId = - int now;
          optimisticBook = \<lparr>ident = tempId, props = bookData\<rparr>;
          st1 = renderBooks_script (st\<lparr>books := optimisticBook # books st\<rparr>)
      in (Creating tempId, fetch POST (showMessage Criando Info st1)))"

definition handleCreate_script_settled :: "int \<Rightarrow> book response \<Rightarrow> state \<Rightarrow> state" where
  "handleCreate_script_settled tempId res st =
     (case tried res of
        Inr serverBook \<Rightarrow>
          showMessage Criado_sucesso Success
            (case findBookIndexById tempId (books st) of
               Some idx \<Rightarrow>
                 renderBooks_script
                   (st\<lparr>books := (books st)[idx := (books st ! idx)\<lparr>ident := ident serverBook\<rparr>]\<rparr>)
             | None \<Rightarrow> st)
      | Inl c \<Rightarrow>
          showMessage (Erro_criar c) Err
            (renderBooks_script (st\<lparr>books := filter (\<lambda>b. ident b \<noteq> tempId) (books st)\<rparr>)))"

definition handleUpdate_script :: "int \<Rightarrow> properties \<Rightarrow> state \<Rightarrow> pending option \<times> state" where
  "handleUpdate_script i updatedData st =
     (case findBookIndexById i (books st) of
        None \<Rightarrow> (None, showMessage Editar_nao_encontrado Err st)
      | Some idx \<Rightarrow>
          let oldBook = books st ! idx;
              st1 = renderBooks_script
                (st\<lparr>books := (books st)[idx := oldBook\<lparr>props := spread (props oldBook) updatedData\<rparr>]\<rparr>)
          in (Some (Updating idx oldBook), fetch (PUT i) (showMessage Atualizando Info st1)))"

text \<open>
  On success the page writes \<^verbatim>\<open>{ ...books[idx], ...serverBook }\<close> at \<open>idx\<close>; where the
  array has no element at \<open>idx\<close> any more, \<^verbatim>\<open>books[idx]\<close> is undefined and spreads to
  nothing.
\<close>

definition handleUpdate_script_settled ::
  "nat \<Rightarrow> book \<Rightarrow> book response \<Rightarrow> state \<Rightarrow> state option" where
  "handleUpdate_script_settled idx oldBook res st =
     (case tried res of
        Inr serverBook \<Rightarrow>
          (let merged = \<lparr>ident = ident serverBook,
                         props = spread (if idx < length (books st) then props (books st ! idx) else [])
                                   (props serverBook)\<rparr>
           in case store_at idx merged (books st) of
                None \<Rightarrow> None
              | Some bs \<Rightarrow>
                  Some (showMessage Atualizado_sucesso Success (renderBooks_script (st\<lparr>books := bs\<rparr>))))
      | Inl c \<Rightarrow>
          (case store_at idx oldBook (books st) of
             None \<Rightarrow> None
           | Some bs \<Rightarrow>
               Some (showMessage (Erro_atualizar c) Err (renderBooks_script (st\<lparr>books := bs\<rparr>)))))"

definition handleDelete_script :: "int \<Rightarrow> state \<Rightarrow> pending option \<times> state" where
  "handleDelete_script i st =
     (case findBookIndexById i (books st) of
        None \<Rightarrow> (None, showMessage Excluir_nao_encontrado Err st)
      | Some idx \<Rightarrow>
          let removed = books st ! idx;
              st1 = renderBooks_script (st\<lparr>books := filter (\<lambda>b. ident b \<noteq> i) (books st)\<rparr>)
          in (Some (Deleting idx removed), fetch (DELETE i) (showMessage Excluindo Info st1)))"

text \<open>
  The deletion reads \<^verbatim>\<open>res.ok\<close> and never the body: what its
  \<^verbatim>\<open>await fetch(...)\<close>, \<^verbatim>\<open>if (!res.ok) throw ...\<close> throws, if anything.
\<close>

fun thrown :: "'a response \<Rightarrow> cause option" where
  "thrown Rejected = Some Fetch_rejected"
| "thrown (Resolved ok body) = (if \<not> ok then Some Status_not_ok else None)"

definition handleDelete_script_settled :: "nat \<Rightarrow> book \<Rightarrow> 'a response \<Rightarrow> state \<Rightarrow> state" where
  "handleDelete_script_settled idx removed res st =
     (case thrown res of
        None \<Rightarrow> showMessage Excluido_sucesso Success st
      | Some c \<Rightarrow>
          showMessage (Erro_excluir c) Err
            (renderBooks_script (st\<lparr>books := splice_in idx removed (books st)\<rparr>)))"

text \<open>The form's \<^verbatim>\<open>submit\<close> listener of script.js; it reads no year and no genre.\<close>

definition submit_script :: "nat \<Rightarrow> form \<Rightarrow> state \<Rightarrow> pending option \<times> state" where
  "submit_script now f st =
     (if \<not> validarForm f then (None, showMessage Corrija_erros Err st)
      else
        let payload = [(''title'', JStr (trim (inputTitulo f))),
                       (''body'', JStr (trim (inputDescricao f))),
                       (''author'', JStr (trim (inputAutor f)))]
        in case inputId f of
             Some i \<Rightarrow> handleUpdate_script i payload st
           | None \<Rightarrow> (case handleCreate_script now payload st of (p, st') \<Rightarrow> (Some p, st')))"

subsection \<open>A handler of script.js run to its end\<close>

definition create_script :: "nat \<Rightarrow> properties \<Rightarrow> book response \<Rightarrow> state \<Rightarrow> state" where
  "create_script now bookData res st =
     (case handleCreate_script now bookData st of
        (Creating tempId, st1) \<Rightarrow> handleCreate_script_settled tempId res st1
      | (p, st1) \<Rightarrow> st1)"

definition update_script :: "int \<Rightarrow> properties \<Rightarrow> book response \<Rightarrow> state \<Rightarrow> state option" where
  "update_script i updatedData res st =
     (case handleUpdate_script i updatedData st of
        (Some (Updating idx oldBook), st1) \<Rightarrow> handleUpdate_script_settled idx oldBook res st1
      | (p, st1) \<Rightarrow> Some st1)"

definition delete_script :: "int \<Rightarrow> book response \<Rightarrow> state \<Rightarrow> state" where
  "delete_script i res st =
     (case handleDelete_script i st of
        (Some (Deleting idx removed), st1) \<Rightarrow> handleDelete_script_settled idx removed res st1
      | (p, st1) \<Rightarrow> st1)"

subsection \<open>The events of script.js\<close>

fun step_script :: "event \<Rightarrow> config \<Rightarrow> config option" where
  "step_script (Submit now f) (st, ps) = Some (await (submit_script now f st) ps)"
| "step_script (Excluir i) (st, ps) = Some (await (handleDelete_script i st) ps)"
| "step_script (Settled k res) (st, ps) =
     (if k < length ps then
        (case ps ! k of
           Creating tempId \<Rightarrow> Some (handleCreate_script_settled tempId res st, splice_out k ps)
         | Updating idx oldBook \<Rightarrow>
             map_option (\<lambda>st'. (st', splice_out k ps))
               (handleUpdate_script_settled idx oldBook res st)
         | Deleting idx removed \<Rightarrow>
             Some (handleDelete_script_settled idx removed res st, splice_out k ps)
         | _ \<Rightarrow> None)
      else None)"
| "step_script (Listed k draws res) (st, ps) =
     (if k < length ps \<and> ps ! k = Listing
      then Some (fetchBooks_script_settled res st, splice_out k ps)
      else None)"
| "step_script (Timer k) (st, ps) = None"

fun run_script :: "event list \<Rightarrow> config \<Rightarrow> config option" where
  "run_script [] c = Some c"
| "run_script (e # es) c = (case step_script e c of None \<Rightarrow> None | Some c' \<Rightarrow> run_script es c')"

text \<open>script.js starts from \<^verbatim>\<open>let books = []\<close> and calls \<^verbatim>\<open>fetchBooks()\<close>.\<close>

definition start_script :: config where
  "start_script = (case fetchBooks_script (page_load None) of (p, st) \<Rightarrow> (st, [p]))"

section \<open>A call that ends before its request\<close>

text \<open>
  \<open>refused r st ns\<close>: the first part \<open>r\<close> of a handler, called in state \<open>st\<close>, returned
  before its \<^verbatim>\<open>await\<close> (nothing is pending), the array and localStorage are as they
  were, no request was sent, and the notifications \<open>ns\<close> were given.
\<close>

definition refused :: "pending option \<times> state \<Rightarrow> state \<Rightarrow> notice list \<Rightarrow> bool" where
  "refused r st ns =
     (fst r = None \<and> books (snd r) = books st \<and> livros (snd r) = livros st \<and>
      requests (snd r) = requests st \<and> notices (snd r) = notices st @ ns)"


section \<open>Distinct identities and the runs that keep them\<close>

text \<open>\<open>unique_ids st\<close>: no two books of the array have the same identity.\<close>

definition unique_ids :: "state \<Rightarrow> bool" where
  "unique_ids st = distinct (map ident (books st))"

text \<open>
  Neither page compares an identity that comes in with the array. \<open>orderly l e c\<close> says
  of the task \<open>e\<close>, run in configuration \<open>c\<close> of the main page right after a task that
  left \<open>l\<close> pending (\<open>None\<close>: it sent no request):
  \<^item> a submission that creates has a placeholder that no book of the array has;
  \<^item> a response that commits a creation (any response with a parsed body) carries an
    identity that no book of the array has;
  \<^item> a list that arrives has pairwise distinct identities;
  \<^item> the failure of an update's or a deletion's request settles the last request
    sent, and the task just before sent it;
  \<^item> a response settles a request that is pending.
  The last two conditions are on the order of the tasks only. \<open>newly e c\<close> is what the task
  \<open>e\<close> leaves pending, and \<open>orderly_run l es c\<close> asks \<open>orderly\<close> of every task of the
  run \<open>es\<close>, each in the configuration the tasks before it have made.

  \<open>in_place l st\<close> is what the first part of a handler has made true of the array when
  it left \<open>l\<close> pending: the index kept by an update holds a book with the identity of
  the copy kept, and no book has the identity of the book a deletion removed.
\<close>

definition in_place :: "pending option \<Rightarrow> state \<Rightarrow> bool" where
  "in_place l st =
     (case l of
        Some (Updating idx oldBook) \<Rightarrow>
          idx < length (books st) \<and> ident (books st ! idx) = ident oldBook
      | Some (Deleting idx removed) \<Rightarrow> ident removed \<notin> ident ` set (books st)
      | _ \<Rightarrow> True)"

fun newly :: "event \<Rightarrow> config \<Rightarrow> pending option" where
  "newly (Submit now f) (st, ps) = fst (submit now f st)"
| "newly (Excluir i) (st, ps) = fst (handleDelete i st)"
| "newly (Settled k res) (st, ps) = None"
| "newly (Listed k draws res) (st, ps) = fst (fetchBooks_settled draws res st)"
| "newly (Timer k) (st, ps) = None"

fun orderly :: "pending option \<Rightarrow> event \<Rightarrow> config \<Rightarrow> bool" where
  "orderly l (Submit now f) (st, ps) =
     (inputId f = None \<longrightarrow> - int now \<notin> ident ` set (books st))"
| "orderly l (Excluir i) (st, ps) = True"
| "orderly l (Settled k res) (st, ps) =
     (k < length ps \<and>
      (case ps ! k of
         Creating tempId \<Rightarrow>
           (case awaited res of
              Some serverBook \<Rightarrow> ident serverBook \<notin> ident ` set (books st)
            | None \<Rightarrow> True)
       | Updating idx oldBook \<Rightarrow> (res = Rejected \<longrightarrow> Suc k = length ps \<and> l = Some (ps ! k))
       | Deleting idx removed \<Rightarrow> (res = Rejected \<longrightarrow> Suc k = length ps \<and> l = Some (ps ! k))
       | _ \<Rightarrow> True))"
| "orderly l (Listed k draws res) (st, ps) =
     (case awaited res of Some data \<Rightarrow> distinct (map ident data) | None \<Rightarrow> True)"
| "orderly l (Timer k) (st, ps) = True"

fun orderly_run :: "pending option \<Rightarrow> event list \<Rightarrow> config \<Rightarrow> bool" where
  "orderly_run l [] c = True"
| "orderly_run l (e # es) c =
     (orderly l e c \<and>
      (case step e c of None \<Rightarrow> True | Some c' \<Rightarrow> orderly_run (newly e c) es c'))"

text \<open>
  The same for script.js. There a response whose \<^verbatim>\<open>ok\<close> is false is a failure, and
  both ends of an update write at the index kept: every settling of an update's
  request, failed or not, settles the last request sent, the task just before sent
  it, and a successful response carries the identity of the copy kept.
\<close>

fun newly_script :: "event \<Rightarrow> config \<Rightarrow> pending option" where
  "newly_script (Submit now f) (st, ps) = fst (submit_script now f st)"
| "newly_script (Excluir i) (st, ps) = fst (handleDelete_script i st)"
| "newly_script e c = None"

fun orderly_script :: "pending option \<Rightarrow> event \<Rightarrow> config \<Rightarrow> bool" where
  "orderly_script l (Submit now f) (st, ps) =
     (inputId f = None \<longrightarrow> - int now \<notin> ident ` set (books st))"
| "orderly_script l (Excluir i) (st, ps) = True"
| "orderly_script l (Settled k res) (st, ps) =
     (k < length ps \<and>
      (case ps ! k of
         Creating tempId \<Rightarrow>
           (case tried res of
              Inr serverBook \<Rightarrow> ident serverBook \<notin> ident ` set (books st)
            | Inl c \<Rightarrow> True)
       | Updating idx oldBook \<Rightarrow>
           Suc k = length ps \<and> l = Some (ps ! k) \<and>
           (case tried res of
              Inr serverBook \<Rightarrow> ident serverBook = ident oldBook
            | Inl c \<Rightarrow> True)
       | Deleting idx removed \<Rightarrow>
           (thrown res \<noteq> None \<longrightarrow> Suc k = length ps \<and> l = Some (ps ! k))
       | _ \<Rightarrow> True))"
| "orderly_script l (Listed k draws res) (st, ps) =
     (case tried res of Inr data \<Rightarrow> distinct (map ident data) | Inl c \<Rightarrow> True)"
| "orderly_script l (Timer k) (st, ps) = True"

fun orderly_run_script :: "pending option \<Rightarrow> event list \<Rightarrow> config \<Rightarrow> bool" where
  "orderly_run_script l [] c = True"
| "orderly_run_script l (e # es) c =
     (orderly_script l e c \<and>
      (case step_script e c of
         None \<Rightarrow> True
       | Some c' \<Rightarrow> orderly_run_script (newly_script e c) es c'))"


section \<open>Example data\<close>

text \<open>
  Four books; the main page after it has loaded a snapshot of one, two and four of
  them and rendered; the data the listener of the main page makes of a valid form.
\<close>

definition livro1 :: book where
  "livro1 = \<lparr>ident = 1, props = [(''title'', JStr (units ''Emma''))]\<rparr>"

definition livro2 :: book where
  "livro2 = \<lparr>ident = 2, props = [(''title'', JStr (units ''Ulysses''))]\<rparr>"

definition livro3 :: book where
  "livro3 = \<lparr>ident = 3, props = [(''title'', JStr (units ''Hamlet''))]\<rparr>"

definition livro4 :: book where
  "livro4 = \<lparr>ident = 4, props = [(''title'', JStr (units ''Macbeth''))]\<rparr>"

definition um_livro :: state where
  "um_livro = renderBooks (page_load (Some [livro1]))"

definition dois_livros :: state where
  "dois_livros = renderBooks (page_load (Some [livro1, livro2]))"

definition quatro_livros :: state where
  "quatro_livros = renderBooks (page_load (Some [livro1, livro2, livro3, livro4]))"

definition dados_dune :: properties where
  "dados_dune =
     [(''title'', JStr (units ''Dune'')), (''author'', JStr (units ''Herrick'')),
      (''body'', JStr []), (''year'', JStr (units ''1965'')),
      (''genre'', JStr (units ''Romance''))]"

definition dados_ulisses :: properties where
  "dados_ulisses =
     [(''title'', JStr (units ''Ulisses'')), (''author'', JStr (units ''Joyce'')),
      (''body'', JStr []), (''year'', JStr (units ''1922'')),
      (''genre'', JStr (units ''Romance''))]"

text \<open>
  The forms: a valid one for a new book (its data is \<open>dados_dune\<close>), a valid one that
  edits the book of identity 2 (its data is \<open>dados_ulisses\<close>), and one for the book of
  identity 2 whose title trims to two characters.
\<close>

definition form_dune :: form where
  "form_dune = \<lparr>inputId = None, inputTitulo = units ''Dune'', inputAutor = units ''Herrick'',
     inputDescricao = [], inputAno = units ''1965'', inputGenero = units ''Romance''\<rparr>"

definition form_ulisses :: form where
  "form_ulisses = \<lparr>inputId = Some 2, inputTitulo = units ''Ulisses'', inputAutor = units ''Joyce'',
     inputDescricao = [], inputAno = units ''1922'', inputGenero = units ''Romance''\<rparr>"

definition form_ab :: form where
  "form_ab = \<lparr>inputId = Some 2, inputTitulo = units '' ab '', inputAutor = units ''Joyce'',
     inputDescricao = [], inputAno = units ''1922'', inputGenero = units ''Romance''\<rparr>"

text \<open>
  Two creations, each settled before the next task, which the server answers with
  the identities \<open>a\<close> and \<open>b\<close>. Position 0 of the pending list is the page's own
  request for the list, still pending.
\<close>

definition duas_criacoes :: "int \<Rightarrow> int \<Rightarrow> event list" where
  "duas_criacoes a b =
     [Submit 1700000000000 form_dune,
      Settled 1 (Resolved True (Some \<lparr>ident = a, props = []\<rparr>)),
      Submit 1700000000500 form_dune,
      Settled 1 (Resolved True (Some \<lparr>ident = b, props = []\<rparr>))]"

text \<open>
  The data the listener of script.js makes of \<open>form_ulisses\<close>; a form whose year has
  three digits, and a valid one but for its blank genre.
\<close>

definition dados_ulisses_script :: properties where
  "dados_ulisses_script =
     [(''title'', JStr (units ''Ulisses'')), (''body'', JStr []),
      (''author'', JStr (units ''Joyce''))]"

definition form_ano :: form where
  "form_ano = \<lparr>inputId = Some 2, inputTitulo = units ''Ulisses'', inputAutor = units ''Joyce'',
     inputDescricao = [], inputAno = units ''922'', inputGenero = units ''Romance''\<rparr>"

definition form_genero :: form where
  "form_genero = \<lparr>inputId = None, inputTitulo = units ''Dune'', inputAutor = units ''Herrick'',
     inputDescricao = [], inputAno = units ''1965'', inputGenero = units '' ''\<rparr>"

text \<open>
  A run with a creation pending across everything else: a creation is submitted; book
  2 is edited and the server confirms; it is edited again and the request fails; book 1
  is deleted and the request fails; book 2 is deleted; the creation is answered with
  identity 101; the deletion is confirmed. Before it, the list the page asked for
  arrives with books 1 and 2.
\<close>

definition tarefas :: "event list" where
  "tarefas =
     [Submit 1700000000000 form_dune,
      Submit 1700000000100 form_ulisses,
      Settled 1 (Resolved True (Some \<lparr>ident = 2, props = []\<rparr>)),
      Submit 1700000000200 form_ulisses,
      Settled 1 Rejected,
      Excluir 1,
      Settled 1 Rejected,
      Excluir 2,
      Settled 0 (Resolved True (Some \<lparr>ident = 101, props = []\<rparr>)),
      Settled 0 (Resolved True None)]"

definition lista_chega :: event where
  "lista_chega = Listed 0 (\<lambda>k. (0, 0)) (Resolved True (Some [livro1, livro2]))"

section \<open>Properties of the normalisation\<close>

lemma coalesce_not_nullish: "\<not> nullish b \<Longrightarrow> \<not> nullish (coalesce a b)"
  by (simp add: coalesce_def)

lemma coalesce_keep: "\<not> nullish a \<Longrightarrow> coalesce a b = a"
  by (simp add: coalesce_def)

lemma coalesce_id_chain:
  "coalesce (coalesce (coalesce a JNull) JUndefined) JNull = coalesce a JNull"
  by (cases a) (simp_all add: coalesce_def)

lemma normalizarLivro_idem: "normalizarLivro (normalizarLivro raw) = normalizarLivro raw"
proof (cases "\<not> truthy raw \<or> \<not> typeof_object raw")
  case True
  then show ?thesis by (simp add: normalizarLivro_def)
next
  case False
  then show ?thesis
    by (simp add: normalizarLivro_def Let_def coalesce_keep coalesce_not_nullish
        coalesce_id_chain)
qed

lemma normalizarLivro_truthy:
  "truthy (normalizarLivro raw) = (truthy raw \<and> typeof_object raw)"
  by (simp add: normalizarLivro_def Let_def)

lemma normalizarLista_arr:
  "normalizarLista (JArr xs) =
     Some (map normalizarLivro (filter (\<lambda>r. truthy r \<and> typeof_object r) xs))"
  by (simp add: normalizarLista_def filter_map comp_def normalizarLivro_truthy)

text \<open>
  C8. Normalising twice gives the same object as normalising once, for every input (a
  well-formed one, truthy and of type object, gives a record; any other gives
  \<^verbatim>\<open>null\<close> both times). On an array, \<^verbatim>\<open>normalizarLista\<close> returns the normalised
  well-formed elements in their order in the input: the failed normalisations are
  dropped, nothing is reordered.
\<close>

theorem normalizar_idempotent_lista_order:
  "normalizarLivro (normalizarLivro x) = normalizarLivro x \<and>
   truthy (normalizarLivro x) = (truthy x \<and> typeof_object x) \<and>
   normalizarLista (JArr xs) =
     Some (map normalizarLivro (filter (\<lambda>r. truthy r \<and> typeof_object r) xs))"
  by (simp only: normalizarLivro_idem normalizarLivro_truthy normalizarLista_arr simp_thms)

theorem normalizar_idempotent_lista_order_witness:
  "normalizarLivro (normalizarLivro (JObj [(''title'', JNum 7), (''ID'', JNum 3)])) =
     normalizarLivro (JObj [(''title'', JNum 7), (''ID'', JNum 3)]) \<and>
   truthy (normalizarLivro (JObj [(''title'', JNum 7), (''ID'', JNum 3)])) \<and>
   normalizarLista (JArr [JNum 5, JObj [(''title'', JNum 7), (''ID'', JNum 3)], JNull, JArr []]) =
     Some [normalizarLivro (JObj [(''title'', JNum 7), (''ID'', JNum 3)]), normalizarLivro (JArr [])]"
  using normalizar_idempotent_lista_order
    [of "JObj [(''title'', JNum 7), (''ID'', JNum 3)]"
        "[JNum 5, JObj [(''title'', JNum 7), (''ID'', JNum 3)], JNull, JArr []]"]
  by simp


section \<open>Facts about the array operations and the rendering\<close>

lemma findIndex_None: "(findIndex p xs = None) = (\<forall>x\<in>set xs. \<not> p x)"
  by (induction xs) auto

lemma findIndex_Some:
  "findIndex p xs = Some k \<Longrightarrow> k < length xs \<and> p (xs ! k) \<and> (\<forall>j<k. \<not> p (xs ! j))"
proof (induction xs arbitrary: k)
  case Nil
  then show ?case by simp
next
  case (Cons x xs)
  show ?case
  proof (cases "p x")
    case True
    with Cons.prems show ?thesis by simp
  next
    case False
    with Cons.prems obtain k' where k': "findIndex p xs = Some k'" "k = Suc k'"
      by auto
    from Cons.IH[OF k'(1)] False k'(2) show ?thesis
      by (auto simp: less_Suc_eq_0_disj)
  qed
qed

lemma findIndex_present: "x \<in> set xs \<Longrightarrow> p x \<Longrightarrow> \<exists>k. findIndex p xs = Some k"
  using findIndex_None[of p xs] by (cases "findIndex p xs") auto

lemma filter_absent: "t \<notin> ident ` set bs \<Longrightarrow> filter (\<lambda>b. ident b \<noteq> t) bs = bs"
  by (induction bs) auto


lemma books_renderBooks [simp]: "books (renderBooks st) = books st"
  by (simp add: renderBooks_def Let_def)

lemma notices_renderBooks [simp]: "notices (renderBooks st) = notices st"
  by (simp add: renderBooks_def Let_def)

lemma requests_renderBooks [simp]: "requests (renderBooks st) = requests st"
  by (simp add: renderBooks_def Let_def)

lemma books_renderBooks_script [simp]: "books (renderBooks_script st) = books st"
  by (simp add: renderBooks_script_def)

lemma notices_renderBooks_script [simp]: "notices (renderBooks_script st) = notices st"
  by (simp add: renderBooks_script_def)

lemma requests_renderBooks_script [simp]: "requests (renderBooks_script st) = requests st"
  by (simp add: renderBooks_script_def)


section \<open>Creation\<close>

lemma create_failed:
  assumes "- int now \<notin> ident ` set (books st)" "awaited res = None"
  shows "books (create now d res st) = books st"
    and "notices (create now d res st) = notices st @ [Alert Falha_salvar_livro]"
  using assms
  by (simp_all add: create_def handleCreate_def handleCreate_settled_def Let_def alert_def
      fetch_def filter_absent)

lemma create_script_failed:
  assumes "- int now \<notin> ident ` set (books st)" "tried res = Inl c"
  shows "books (create_script now d res st) = books st"
    and "notices (create_script now d res st) =
           notices st @ [Message Criando Info, Message (Erro_criar c) Err]"
  using assms
  by (simp_all add: create_script_def handleCreate_script_def handleCreate_script_settled_def
      Let_def showMessage_def fetch_def filter_absent)

lemma create_committed:
  assumes "awaited res = Some sb"
  shows "books (create now d res st) = \<lparr>ident = ident sb, props = d\<rparr> # books st"
  using assms
  by (simp add: create_def handleCreate_def handleCreate_settled_def Let_def fetch_def)




text \<open>
  C1 (as amended). Take any form data and a moment at which no book of the array has
  the placeholder identity \<open>- now\<close>. When the request is rejected or the body of the
  response cannot be parsed (\<open>awaited res = None\<close>), and on script.js also when the
  status of the response is not a success (\<open>tried res = Inl c\<close>), the array is
  afterwards the array from before the call, with the same books in the same order,
  and the handler has given exactly one error notification. Nothing is said here of
  the main page at a response with a parsed body and a status that is not a success:
  see C5.
\<close>

theorem create_failure_restores_store:
  assumes "- int now \<notin> ident ` set (books st)"
  shows "(awaited res = None \<longrightarrow>
            books (create now d res st) = books st \<and>
            filter is_error (notices (create now d res st)) =
              filter is_error (notices st) @ [Alert Falha_salvar_livro]) \<and>
         (tried res = Inl c \<longrightarrow>
            books (create_script now d res st) = books st \<and>
            filter is_error (notices (create_script now d res st)) =
              filter is_error (notices st) @ [Message (Erro_criar c) Err])"
  using assms by (simp add: create_failed create_script_failed)

theorem create_failure_restores_store_witness:
  "- int 1700000000000 \<notin> ident ` set (books dois_livros) \<and>
   awaited (Resolved True None :: book response) = None \<and>
   books (create 1700000000000 dados_dune (Resolved True None) dois_livros) = [livro1, livro2] \<and>
   filter is_error (notices (create 1700000000000 dados_dune (Resolved True None) dois_livros)) =
     [Alert Falha_salvar_livro] \<and>
   tried (Resolved True None :: book response) = Inl Json_rejected \<and>
   books (create_script 1700000000000 dados_dune (Resolved True None) dois_livros) = [livro1, livro2] \<and>
   filter is_error (notices (create_script 1700000000000 dados_dune (Resolved True None) dois_livros)) =
     [Message (Erro_criar Json_rejected) Err]"
  using create_failure_restores_store
    [of 1700000000000 dois_livros "Resolved True None" dados_dune Json_rejected]
  by (simp add: dois_livros_def page_load_def livro1_def livro2_def)


text \<open>
  As the specification states it, without the proviso, C1 fails: two creations
  within the same millisecond get the same placeholder, and the rollback of the second
  removes the first one's book too. The array holds one book before the second creation
  and none after its failure.
\<close>

theorem create_failure_counterexample:
  "books (snd (handleCreate 1700000000000 dados_dune (page_load None))) =
     [\<lparr>ident = - 1700000000000, props = dados_dune\<rparr>] \<and>
   books (create 1700000000000 dados_dune Rejected
            (snd (handleCreate 1700000000000 dados_dune (page_load None)))) = []"
  by (simp add: create_def handleCreate_def handleCreate_settled_def Let_def fetch_def
      alert_def page_load_def)








section \<open>Update\<close>

lemma store_at_inside: "i < length xs \<Longrightarrow> store_at i v xs = Some (xs[i := v])"
  by (simp add: store_at_def)

lemma find_present: "i \<in> ident ` set bs \<Longrightarrow> find (\<lambda>b. ident b = i) bs \<noteq> None"
  by (auto simp: find_None_iff)

lemma update_failed_books:
  assumes "i \<in> ident ` set (books st)"
  shows "map_option books (update i d Rejected st) = Some (books st)"
    and "map_option notices (update i d Rejected st) = Some (notices st @ [Alert Falha_salvar_edicao])"
proof -
  from assms obtain b where b: "b \<in> set (books st)" "ident b = i" by auto
  then obtain idx where idx: "findIndex (\<lambda>b. ident b = i) (books st) = Some idx"
    using findIndex_present[of b "books st" "\<lambda>b. ident b = i"] by auto
  from findIndex_Some[OF idx] have lt: "idx < length (books st)" by simp
  show "map_option books (update i d Rejected st) = Some (books st)"
    using idx lt
    by (simp add: update_def handleUpdate_def handleUpdate_settled_def Let_def fetch_def
        alert_def store_at_inside)
  show "map_option notices (update i d Rejected st) = Some (notices st @ [Alert Falha_salvar_edicao])"
    using idx lt
    by (simp add: update_def handleUpdate_def handleUpdate_settled_def Let_def fetch_def
        alert_def store_at_inside)
qed

lemma update_script_failed_books:
  assumes "i \<in> ident ` set (books st)" "tried res = Inl c"
  shows "map_option books (update_script i d res st) = Some (books st)"
    and "map_option notices (update_script i d res st) =
           Some (notices st @ [Message Atualizando Info, Message (Erro_atualizar c) Err])"
proof -
  from assms obtain b where b: "b \<in> set (books st)" "ident b = i" by auto
  then obtain idx where idx: "findIndex (\<lambda>b. ident b = i) (books st) = Some idx"
    using findIndex_present[of b "books st" "\<lambda>b. ident b = i"] by auto
  from findIndex_Some[OF idx] have lt: "idx < length (books st)" by simp
  show "map_option books (update_script i d res st) = Some (books st)"
    using idx lt assms(2)
    by (simp add: update_script_def handleUpdate_script_def handleUpdate_script_settled_def
        Let_def fetch_def showMessage_def store_at_inside findBookIndexById_def)
  show "map_option notices (update_script i d res st) =
           Some (notices st @ [Message Atualizando Info, Message (Erro_atualizar c) Err])"
    using idx lt assms(2)
    by (simp add: update_script_def handleUpdate_script_def handleUpdate_script_settled_def
        Let_def fetch_def showMessage_def store_at_inside findBookIndexById_def)
qed

lemma map_option_find:
  "map_option books r = Some bs \<Longrightarrow>
   map_option (\<lambda>s. find p (books s)) r = Some (find p bs)"
  by (cases r) auto


text \<open>
  The rollback of an update with no other task of the page between the optimistic
  write and the failure of the request (on the main page \<^verbatim>\<open>fetch\<close> rejects; on
  script.js the \<^verbatim>\<open>try\<close> block throws): looking the identity up afterwards gives the
  book it gave before the call, the whole array is the array from before, and one
  error notification was given.
\<close>

lemma update_rollback_undisturbed:
  assumes "i \<in> ident ` set (books st)"
  shows "find (\<lambda>b. ident b = i) (books st) \<noteq> None \<and>
         map_option (\<lambda>s. find (\<lambda>b. ident b = i) (books s)) (update i d Rejected st) =
           Some (find (\<lambda>b. ident b = i) (books st)) \<and>
         map_option books (update i d Rejected st) = Some (books st) \<and>
         map_option (\<lambda>s. filter is_error (notices s)) (update i d Rejected st) =
           Some (filter is_error (notices st) @ [Alert Falha_salvar_edicao]) \<and>
         (tried res = Inl c \<longrightarrow>
            map_option (\<lambda>s. find (\<lambda>b. ident b = i) (books s)) (update_script i d res st) =
              Some (find (\<lambda>b. ident b = i) (books st)) \<and>
            map_option books (update_script i d res st) = Some (books st) \<and>
            map_option (\<lambda>s. filter is_error (notices s)) (update_script i d res st) =
              Some (filter is_error (notices st) @ [Message (Erro_atualizar c) Err]))"
proof -
  note m = update_failed_books[OF assms, of d]
  have n1: "map_option (\<lambda>s. filter is_error (notices s)) (update i d Rejected st) =
           Some (filter is_error (notices st) @ [Alert Falha_salvar_edicao])"
    using m(2) by (cases "update i d Rejected st") auto
  have s: "tried res = Inl c \<Longrightarrow>
            map_option (\<lambda>s. find (\<lambda>b. ident b = i) (books s)) (update_script i d res st) =
              Some (find (\<lambda>b. ident b = i) (books st)) \<and>
            map_option books (update_script i d res st) = Some (books st) \<and>
            map_option (\<lambda>s. filter is_error (notices s)) (update_script i d res st) =
              Some (filter is_error (notices st) @ [Message (Erro_atualizar c) Err])"
  proof -
    assume t: "tried res = Inl c"
    note ms = update_script_failed_books[OF assms t, of d]
    have "map_option (\<lambda>s. filter is_error (notices s)) (update_script i d res st) =
              Some (filter is_error (notices st) @ [Message (Erro_atualizar c) Err])"
      using ms(2) by (cases "update_script i d res st") auto
    then show ?thesis using ms(1) map_option_find[OF ms(1)] by simp
  qed
  show ?thesis
    using find_present[OF assms] m(1) map_option_find[OF m(1)] n1 s by simp
qed


section \<open>Validation and missing identities\<close>

lemma refused_alert: "refused (None, alert a st) st [Alert a]"
  by (simp add: refused_def alert_def)

lemma refused_message: "refused (None, showMessage m l st) st [Message m l]"
  by (simp add: refused_def showMessage_def)

lemma refused_silent: "refused (None, st) st []"
  by (simp add: refused_def)

lemma submit_short_title:
  "length (trim (inputTitulo f)) < 3 \<Longrightarrow>
   submit now f st =
     (None, alert (if four_digits (trim (inputAno f)) then Titulo_3_caracteres
                   else Ano_4_numeros) st)"
  by (simp add: submit_def)

lemma submit_script_short_title:
  "length (trim (inputTitulo f)) < 3 \<Longrightarrow>
   submit_script now f st = (None, showMessage Corrija_erros Err st)"
  by (simp add: submit_script_def validarForm_def validarTitulo_def)

lemma findIndex_absent: "i \<notin> ident ` set bs \<Longrightarrow> findIndex (\<lambda>b. ident b = i) bs = None"
  by (auto simp: findIndex_None)


lemma refused_submit_year:
  "\<not> four_digits (trim (inputAno f)) \<Longrightarrow> refused (submit now f st) st [Alert Ano_4_numeros]"
  by (simp add: submit_def refused_alert)

lemma refused_submit_genre:
  "four_digits (trim (inputAno f)) \<Longrightarrow> \<not> length (trim (inputTitulo f)) < 3 \<Longrightarrow>
   trim (inputGenero f) = [] \<Longrightarrow> refused (submit now f st) st [Alert Selecione_genero]"
  by (simp add: submit_def refused_alert)

text \<open>
  C6 (as amended). A submission that fails a check of the listener ends there: the
  array and localStorage are unchanged, no request is sent, and one error notification
  is given. On the main page the checks are, in this order, a year of four digits, a
  title of at least three characters after trimming, a genre that is not blank; on
  script.js the title alone. So an edit of an existing identity whose title trims to
  fewer than three characters changes nothing. An update or a deletion of an identity
  no book has ends before any change and any request as well; the update gives one
  error notification on both pages, the deletion gives one on script.js and none on
  the main page.
\<close>

theorem validation_and_not_found_leave_store:
  "(\<not> four_digits (trim (inputAno f)) \<longrightarrow>
      refused (submit now f st) st [Alert Ano_4_numeros]) \<and>
   (four_digits (trim (inputAno f)) \<and> length (trim (inputTitulo f)) < 3 \<longrightarrow>
      refused (submit now f st) st [Alert Titulo_3_caracteres]) \<and>
   (four_digits (trim (inputAno f)) \<and> \<not> length (trim (inputTitulo f)) < 3 \<and>
    trim (inputGenero f) = [] \<longrightarrow>
      refused (submit now f st) st [Alert Selecione_genero]) \<and>
   (length (trim (inputTitulo f)) < 3 \<longrightarrow>
      refused (submit now f st) st
        [Alert (if four_digits (trim (inputAno f)) then Titulo_3_caracteres else Ano_4_numeros)] \<and>
      refused (submit_script now f st) st [Message Corrija_erros Err]) \<and>
   (i \<notin> ident ` set (books st) \<longrightarrow>
      refused (handleUpdate i d st) st [Alert Livro_nao_encontrado] \<and>
      refused (handleUpdate_script i d st) st [Message Editar_nao_encontrado Err] \<and>
      refused (handleDelete_script i st) st [Message Excluir_nao_encontrado Err] \<and>
      refused (handleDelete i st) st [])"
  by (simp add: refused_submit_year refused_submit_genre
      submit_short_title submit_script_short_title findIndex_absent
      handleUpdate_def handleUpdate_script_def handleDelete_def handleDelete_script_def
      findBookIndexById_def refused_alert refused_message refused_silent)

theorem validation_and_not_found_leave_store_witness:
  "\<not> four_digits (trim (inputAno form_ano)) \<and>
   refused (submit 1700000000000 form_ano dois_livros) dois_livros [Alert Ano_4_numeros] \<and>
   four_digits (trim (inputAno form_genero)) \<and>
   \<not> length (trim (inputTitulo form_genero)) < 3 \<and>
   trim (inputGenero form_genero) = [] \<and>
   refused (submit 1700000000000 form_genero dois_livros) dois_livros [Alert Selecione_genero] \<and>
   four_digits (trim (inputAno form_ab)) \<and>
   length (trim (inputTitulo form_ab)) = 2 \<and>
   inputId form_ab = Some 2 \<and> (2::int) \<in> ident ` set (books dois_livros) \<and>
   submit 1700000000000 form_ab dois_livros = (None, alert Titulo_3_caracteres dois_livros) \<and>
   refused (submit 1700000000000 form_ab dois_livros) dois_livros [Alert Titulo_3_caracteres] \<and>
   refused (submit_script 1700000000000 form_ab dois_livros) dois_livros [Message Corrija_erros Err] \<and>
   (99::int) \<notin> ident ` set (books dois_livros) \<and>
   refused (handleUpdate 99 dados_dune dois_livros) dois_livros [Alert Livro_nao_encontrado] \<and>
   refused (handleUpdate_script 99 dados_dune dois_livros) dois_livros
     [Message Editar_nao_encontrado Err] \<and>
   refused (handleDelete_script 99 dois_livros) dois_livros [Message Excluir_nao_encontrado Err] \<and>
   refused (handleDelete 99 dois_livros) dois_livros []"
proof -
  have t: "trim (inputTitulo form_ab) = units ''ab''"
    by (simp add: form_ab_def trim_def units_def is_space_def)
  have y: "four_digits (trim (inputAno form_ab))"
    by (simp add: form_ab_def trim_def units_def is_space_def four_digits_def)
  have l: "length (trim (inputTitulo form_ab)) = 2"
    by (simp add: t units_def)
  have ya: "\<not> four_digits (trim (inputAno form_ano))"
    by (simp add: form_ano_def trim_def units_def is_space_def four_digits_def)
  have g: "four_digits (trim (inputAno form_genero))"
    "\<not> length (trim (inputTitulo form_genero)) < 3"
    "trim (inputGenero form_genero) = []"
    by (simp_all add: form_genero_def trim_def units_def is_space_def four_digits_def)
  have a: "(99::int) \<notin> ident ` set (books dois_livros)"
    and b: "(2::int) \<in> ident ` set (books dois_livros)"
    by (simp_all add: dois_livros_def page_load_def livro1_def livro2_def)
  have s: "submit 1700000000000 form_ab dois_livros = (None, alert Titulo_3_caracteres dois_livros)"
    using l y by (simp add: submit_short_title)
  show ?thesis
    using validation_and_not_found_leave_store
      [of form_ab 1700000000000 dois_livros 99 dados_dune]
      validation_and_not_found_leave_store
      [of form_ano 1700000000000 dois_livros 99 dados_dune]
      validation_and_not_found_leave_store
      [of form_genero 1700000000000 dois_livros 99 dados_dune]
      l y ya g a b s
    by (simp add: form_ab_def)
qed


text \<open>
  The specification has every not-found reported. On the main page \<^verbatim>\<open>handleDelete\<close>
  returns from its guard \<^verbatim>\<open>if (idx === -1) return;\<close> and gives no notification.
\<close>

theorem delete_not_found_counterexample:
  "(99::int) \<notin> ident ` set (books dois_livros) \<and>
   handleDelete 99 dois_livros = (None, dois_livros) \<and>
   notices (snd (handleDelete 99 dois_livros)) = []"
  by (simp add: handleDelete_def dois_livros_def page_load_def livro1_def livro2_def
      renderBooks_def Let_def)



section \<open>Rendering and the snapshot\<close>

lemma dois_livros_eq:
  "dois_livros = \<lparr>books = [livro1, livro2], livros = Some [livro1, livro2],
     listaLivros = [livro1, livro2], notices = [], requests = []\<rparr>"
  by (simp add: dois_livros_def page_load_def renderBooks_def Let_def)

lemma um_livro_eq:
  "um_livro = \<lparr>books = [livro1], livros = Some [livro1],
     listaLivros = [livro1], notices = [], requests = []\<rparr>"
  by (simp add: um_livro_def page_load_def renderBooks_def Let_def)

lemma renderBooks_empty: "books st = [] \<Longrightarrow> renderBooks st = st\<lparr>listaLivros := []\<rparr>"
  by (simp add: renderBooks_def)

lemma renderBooks_nonempty:
  "books st \<noteq> [] \<Longrightarrow>
   renderBooks st = st\<lparr>listaLivros := take 4 (books st), livros := Some (books st)\<rparr>"
  by (simp add: renderBooks_def Let_def)

lemma listaLivros_renderBooks: "listaLivros (renderBooks st) = take 4 (books st)"
  by (cases "books st = []") (simp_all add: renderBooks_empty renderBooks_nonempty)

lemma quatro_livros_eq:
  "quatro_livros = \<lparr>books = [livro1, livro2, livro3, livro4],
     livros = Some [livro1, livro2, livro3, livro4],
     listaLivros = [livro1, livro2, livro3, livro4], notices = [], requests = []\<rparr>"
  by (simp add: quatro_livros_def page_load_def renderBooks_def Let_def)

lemma create_committed_state:
  assumes "awaited res = Some sb"
  shows "create now d res st =
           renderBooks ((fetch POST (renderBooks (st\<lparr>books := \<lparr>ident = - int now, props = d\<rparr> # books st\<rparr>)))
             \<lparr>books := \<lparr>ident = ident sb, props = d\<rparr> # books st\<rparr>)"
  using assms
  by (simp add: create_def handleCreate_def handleCreate_settled_def Let_def fetch_def)


text \<open>
  C10. A render pass of the main page shows the first four books of the array, in
  the array's order, and nothing else; when it shows any, the snapshot it writes is
  the whole array. So when a creation on an array of four or more books succeeds, the
  book that was fourth is fifth, the page shows the four books in front of it, and the
  array and the snapshot (which is the array) still hold it.
\<close>

theorem render_shows_first_four:
  "listaLivros (renderBooks st) = take 4 (books st) \<and>
   (books st \<noteq> [] \<longrightarrow> livros (renderBooks st) = Some (books st)) \<and>
   (4 \<le> length (books st) \<and> awaited res = Some sb \<longrightarrow>
      books (create now d res st) ! 4 = books st ! 3 \<and>
      length (books (create now d res st)) = Suc (length (books st)) \<and>
      listaLivros (create now d res st) = take 4 (books (create now d res st)) \<and>
      length (listaLivros (create now d res st)) = 4 \<and>
      livros (create now d res st) = Some (books (create now d res st)))"
proof -
  have c: "4 \<le> length (books st) \<Longrightarrow> awaited res = Some sb \<Longrightarrow>
      books (create now d res st) ! 4 = books st ! 3 \<and>
      length (books (create now d res st)) = Suc (length (books st)) \<and>
      listaLivros (create now d res st) = take 4 (books (create now d res st)) \<and>
      length (listaLivros (create now d res st)) = 4 \<and>
      livros (create now d res st) = Some (books (create now d res st))"
    by (simp add: create_committed_state renderBooks_nonempty)
  show ?thesis
    using c by (simp add: listaLivros_renderBooks renderBooks_nonempty)
qed

theorem render_shows_first_four_witness:
  "books quatro_livros = [livro1, livro2, livro3, livro4] \<and>
   listaLivros quatro_livros = [livro1, livro2, livro3, livro4] \<and>
   awaited (Resolved True (Some \<lparr>ident = 101, props = []\<rparr>)) = Some \<lparr>ident = 101, props = []\<rparr> \<and>
   books (create 1700000000000 dados_dune (Resolved True (Some \<lparr>ident = 101, props = []\<rparr>)) quatro_livros) =
     [\<lparr>ident = 101, props = dados_dune\<rparr>, livro1, livro2, livro3, livro4] \<and>
   books (create 1700000000000 dados_dune (Resolved True (Some \<lparr>ident = 101, props = []\<rparr>)) quatro_livros) ! 4 =
     livro4 \<and>
   listaLivros (create 1700000000000 dados_dune (Resolved True (Some \<lparr>ident = 101, props = []\<rparr>)) quatro_livros) =
     [\<lparr>ident = 101, props = dados_dune\<rparr>, livro1, livro2, livro3] \<and>
   livros (create 1700000000000 dados_dune (Resolved True (Some \<lparr>ident = 101, props = []\<rparr>)) quatro_livros) =
     Some [\<lparr>ident = 101, props = dados_dune\<rparr>, livro1, livro2, livro3, livro4]"
proof -
  have b: "books (create 1700000000000 dados_dune (Resolved True (Some \<lparr>ident = 101, props = []\<rparr>)) quatro_livros) =
     [\<lparr>ident = 101, props = dados_dune\<rparr>, livro1, livro2, livro3, livro4]"
    by (simp add: create_committed quatro_livros_eq)
  show ?thesis
    using render_shows_first_four
      [of quatro_livros "Resolved True (Some \<lparr>ident = 101, props = []\<rparr>)"
          "\<lparr>ident = 101, props = []\<rparr>" 1700000000000 dados_dune] b
    by (simp add: quatro_livros_eq)
qed


text \<open>
  C9 (the code at a failing input). The page shows one book and localStorage holds it.
  The book is deleted and the server confirms. The array is empty, \<^verbatim>\<open>renderBooks\<close>
  returns from its empty branch before \<^verbatim>\<open>localStorage.setItem\<close>, and the item still
  holds the book: a reload reads it back into the array.
\<close>

theorem empty_render_keeps_snapshot:
  "books (delete 1 (Resolved True None) um_livro) = [] \<and>
   listaLivros (delete 1 (Resolved True None) um_livro) = [] \<and>
   livros (delete 1 (Resolved True None) um_livro) = Some [livro1] \<and>
   books (page_load (livros (delete 1 (Resolved True None) um_livro))) = [livro1]"
  by (simp add: delete_def handleDelete_def handleDelete_settled_def um_livro_eq livro1_def
      Let_def splice_out_def fetch_def renderBooks_empty page_load_def)


section \<open>Responses with a status outside the success range\<close>

text \<open>
  C5 (the code at a failing input). A response whose \<^verbatim>\<open>ok\<close> is false, with a JSON
  body where one is read. script.js throws and rolls back. The main page never reads
  \<^verbatim>\<open>res.ok\<close>: it commits the creation under the identity in the body, and lets an
  update and a deletion stand, without a notification.
\<close>

theorem status_not_ok_is_no_failure:
  "books (create 1700000000000 dados_dune (Resolved False (Some \<lparr>ident = 7, props = []\<rparr>)) dois_livros) =
     [\<lparr>ident = 7, props = dados_dune\<rparr>, livro1, livro2] \<and>
   notices (create 1700000000000 dados_dune (Resolved False (Some \<lparr>ident = 7, props = []\<rparr>)) dois_livros) = [] \<and>
   books (create_script 1700000000000 dados_dune (Resolved False (Some \<lparr>ident = 7, props = []\<rparr>)) dois_livros) =
     [livro1, livro2] \<and>
   notices (create_script 1700000000000 dados_dune (Resolved False (Some \<lparr>ident = 7, props = []\<rparr>)) dois_livros) =
     [Message Criando Info, Message (Erro_criar Status_not_ok) Err] \<and>
   map_option books (update 2 dados_ulisses (Resolved False None) dois_livros) =
     Some [livro1, \<lparr>ident = 2, props = dados_ulisses\<rparr>] \<and>
   map_option notices (update 2 dados_ulisses (Resolved False None) dois_livros) = Some [] \<and>
   map_option books (update_script 2 dados_ulisses (Resolved False None) dois_livros) =
     Some [livro1, livro2] \<and>
   books (delete 2 (Resolved False None) dois_livros) = [livro1] \<and>
   notices (delete 2 (Resolved False None) dois_livros) = [] \<and>
   books (delete_script 2 (Resolved False None) dois_livros) = [livro1, livro2] \<and>
   map ident (books (snd (fetchBooks_settled (\<lambda>k. (0, 0)) (Resolved False (Some [livro1, livro2]))
       (snd (fetchBooks (page_load None)))))) = [1, 2] \<and>
   notices (snd (fetchBooks_settled (\<lambda>k. (0, 0)) (Resolved False (Some [livro1, livro2]))
       (snd (fetchBooks (page_load None))))) = [] \<and>
   books (fetchBooks_script_settled (Resolved False (Some [livro1, livro2]))
       (snd (fetchBooks_script (page_load None)))) = [] \<and>
   notices (fetchBooks_script_settled (Resolved False (Some [livro1, livro2]))
       (snd (fetchBooks_script (page_load None)))) = [Message (Erro_buscar Status_not_ok) Err]"
  by (simp add: create_def handleCreate_def handleCreate_settled_def
      fetchBooks_settled_def fetchBooks_def fetchBooks_script_settled_def
      fetchBooks_script_def page_load_def livro_of_item_def
      create_script_def handleCreate_script_def handleCreate_script_settled_def
      update_def handleUpdate_def handleUpdate_settled_def
      update_script_def handleUpdate_script_def handleUpdate_script_settled_def
      delete_def handleDelete_def handleDelete_settled_def
      delete_script_def handleDelete_script_def handleDelete_script_settled_def
      findBookIndexById_def store_at_def splice_out_def splice_in_def
      dois_livros_eq livro1_def livro2_def dados_ulisses_def spread_def
      Let_def fetch_def showMessage_def alert_def)


section \<open>Tasks between the two parts of a handler\<close>

lemma trim_units_Dune: "trim (units ''Dune'') = units ''Dune''"
  by (simp add: trim_def units_def is_space_def)

lemma submit_form_ulisses: "submit now form_ulisses st = handleUpdate 2 dados_ulisses st"
  by (simp add: submit_def form_ulisses_def dados_ulisses_def trim_def units_def is_space_def
      four_digits_def)

lemma submit_form_dune:
  "submit now form_dune st = (case handleCreate now dados_dune st of (p, st') \<Rightarrow> (Some p, st'))"
  by (simp add: submit_def form_dune_def dados_dune_def trim_def units_def is_space_def
      four_digits_def)


text \<open>
  C4 (the code at a failing input). The commit of a creation looks its book up by
  identity when the request settles. The rollbacks of an update and of a deletion do
  not: they write at the index found before the request was sent. Here the book of
  identity 2 is edited (in the second run: deleted), a creation puts a book in front
  while the request is pending, and the request fails. The update's rollback
  overwrites the book of identity 1 with the copy of book 2, so the array has identity
  2 twice and identity 1 no more; the deletion's rollback puts book 2 back in front
  of book 1, where it was behind it.
\<close>

theorem rollback_at_cached_index:
  "map_option (\<lambda>c. books (fst c))
     (run [Submit 1700000000000 form_ulisses, Submit 1700000000500 form_dune, Settled 0 Rejected]
        (dois_livros, [])) =
     Some [\<lparr>ident = - 1700000000500, props = dados_dune\<rparr>, livro2,
           \<lparr>ident = 2, props = dados_ulisses\<rparr>] \<and>
   map_option (\<lambda>c. books (fst c))
     (run [Excluir 2, Submit 1700000000500 form_dune, Settled 0 Rejected] (dois_livros, [])) =
     Some [\<lparr>ident = - 1700000000500, props = dados_dune\<rparr>, livro2, livro1]"
  by (simp add: submit_form_ulisses submit_form_dune await_def
      handleCreate_def handleUpdate_def handleUpdate_settled_def
      handleDelete_def handleDelete_settled_def
      store_at_def splice_out_def splice_in_def
      dois_livros_eq livro1_def livro2_def dados_ulisses_def spread_def
      Let_def fetch_def alert_def)



lemma submit_script_form_ulisses:
  "submit_script now form_ulisses st =
     handleUpdate_script 2
       [(''title'', JStr (units ''Ulisses'')), (''body'', JStr []),
        (''author'', JStr (units ''Joyce''))] st"
  by (simp add: submit_script_def validarForm_def validarTitulo_def form_ulisses_def trim_def
      units_def is_space_def)

text \<open>
  C3 (the code at a failing input). The array holds books 1 and 2. Book 2 is edited
  (the handler keeps its index, 1, and a copy), book 1 is deleted while the request is
  pending, and the request fails. The rollback writes the copy at index 1, behind the
  edited book, which has moved to index 0: looking identity 2 up gives the edited book,
  not the book from before the edit. Both pages do so; it is the write at a kept index
  of C4. On the main page a response whose status is not a success does not reach
  the rollback at all, and the lookup gives the edited book: this is C5.
\<close>

theorem update_rollback_misses_record:
  "find (\<lambda>b. ident b = 2) (books dois_livros) = Some livro2 \<and>
   map_option (\<lambda>c. books (fst c))
     (run [Submit 1700000000000 form_ulisses, Excluir 1, Settled 0 Rejected] (dois_livros, [])) =
     Some [\<lparr>ident = 2, props = dados_ulisses\<rparr>, livro2] \<and>
   map_option (\<lambda>c. find (\<lambda>b. ident b = 2) (books (fst c)))
     (run [Submit 1700000000000 form_ulisses, Excluir 1, Settled 0 Rejected] (dois_livros, [])) =
     Some (Some \<lparr>ident = 2, props = dados_ulisses\<rparr>) \<and>
   map_option (\<lambda>c. books (fst c))
     (run_script [Submit 1700000000000 form_ulisses, Excluir 1, Settled 0 Rejected]
        (dois_livros, [])) =
     Some [\<lparr>ident = 2, props = dados_ulisses_script\<rparr>, livro2] \<and>
   map_option (\<lambda>c. find (\<lambda>b. ident b = 2) (books (fst c)))
     (run_script [Submit 1700000000000 form_ulisses, Excluir 1, Settled 0 Rejected]
        (dois_livros, [])) =
     Some (Some \<lparr>ident = 2, props = dados_ulisses_script\<rparr>) \<and>
   map_option (\<lambda>s. find (\<lambda>b. ident b = 2) (books s))
     (update 2 dados_ulisses (Resolved False None) dois_livros) =
     Some (Some \<lparr>ident = 2, props = dados_ulisses\<rparr>)"
  by (simp add: submit_form_ulisses submit_script_form_ulisses await_def
      update_def handleUpdate_def handleUpdate_settled_def
      handleDelete_def handleUpdate_script_def handleUpdate_script_settled_def
      handleDelete_script_def findBookIndexById_def
      store_at_def splice_out_def
      dois_livros_eq livro1_def livro2_def dados_ulisses_def dados_ulisses_script_def spread_def
      Let_def fetch_def alert_def showMessage_def)

section \<open>Distinct identities\<close>

lemma unique_renderBooks [simp]: "unique_ids (renderBooks st) = unique_ids st"
  by (simp add: unique_ids_def)

lemma unique_alert [simp]: "unique_ids (alert a st) = unique_ids st"
  by (simp add: unique_ids_def alert_def)

lemma unique_fetch [simp]: "unique_ids (fetch r st) = unique_ids st"
  by (simp add: unique_ids_def fetch_def)

lemma unique_books_update: "unique_ids (st\<lparr>books := bs\<rparr>) = distinct (map ident bs)"
  by (simp add: unique_ids_def)

lemma map_ident_props: "map ident (xs[i := (xs ! i)\<lparr>props := p\<rparr>]) = map ident xs"
proof (cases "i < length xs")
  case True
  then show ?thesis by (simp add: map_update list_update_same_conv)
next
  case False
  then have "xs[i := (xs ! i)\<lparr>props := p\<rparr>] = xs" by (simp add: list_update_beyond)
  then show ?thesis by (simp only:)
qed

lemma map_ident_same:
  "i < length xs \<Longrightarrow> ident (xs ! i) = ident v \<Longrightarrow> map ident (xs[i := v]) = map ident xs"
  by (simp add: map_update list_update_same_conv)

lemma distinct_rename:
  assumes "distinct (map ident xs)" "s \<notin> ident ` set xs"
  shows "distinct (map ident (xs[i := (xs ! i)\<lparr>ident := s\<rparr>]))"
proof (cases "i < length xs")
  case True
  have m: "map ident (xs[i := (xs ! i)\<lparr>ident := s\<rparr>]) = (map ident xs)[i := s]"
    by (simp add: map_update)
  have "distinct ((map ident xs)[i := s])"
    using assms by (simp add: distinct_list_update)
  then show ?thesis by (simp only: m)
next
  case False
  then have "xs[i := (xs ! i)\<lparr>ident := s\<rparr>] = xs" by (simp add: list_update_beyond)
  with assms(1) show ?thesis by (simp only:)
qed

lemma distinct_splice_out:
  assumes "distinct (map f xs)"
  shows "distinct (map f (splice_out i xs))"
proof (cases "i < length xs")
  case True
  from assms id_take_nth_drop[OF True]
  have "distinct (map f (take i xs @ xs ! i # drop (Suc i) xs))" by metis
  then show ?thesis by (auto simp: splice_out_def)
next
  case False
  then show ?thesis using assms by (simp add: splice_out_def)
qed

lemma distinct_splice_in:
  assumes "distinct (map f xs)" "f v \<notin> f ` set xs"
  shows "distinct (map f (splice_in i v xs))"
proof -
  have e: "map f xs = map f (take i xs) @ map f (drop i xs)"
    by (simp flip: map_append)
  from assms(1) have "distinct (map f (take i xs) @ map f (drop i xs))"
    by (subst (asm) e)
  then have d: "distinct (map f (take i xs))" "distinct (map f (drop i xs))"
    "set (map f (take i xs)) \<inter> set (map f (drop i xs)) = {}"
    by (simp_all only: distinct_append)
  have "set (take i xs) \<subseteq> set xs" "set (drop i xs) \<subseteq> set xs"
    by (rule set_take_subset, rule set_drop_subset)
  with assms(2) have n: "f v \<notin> set (map f (take i xs))" "f v \<notin> set (map f (drop i xs))"
    by auto
  have "distinct (map f (take i xs) @ f v # map f (drop i xs))"
    using d n by (simp only: distinct_append distinct.simps set_simps) blast
  then show ?thesis by (simp add: splice_in_def)
qed

lemma map_ident_enumerate:
  "map (ident \<circ> (\<lambda>(k, item). livro_of_item (draws k) item)) (enumerate n data) = map ident data"
  by (induction data arbitrary: n) (simp_all add: livro_of_item_def)

lemma unique_handleCreate:
  "unique_ids st \<Longrightarrow> - int now \<notin> ident ` set (books st) \<Longrightarrow>
   unique_ids (snd (handleCreate now d st))"
  by (simp add: handleCreate_def Let_def unique_books_update) (simp add: unique_ids_def)

lemma unique_handleCreate_settled:
  assumes "unique_ids st"
    and "case awaited res of Some sb \<Rightarrow> ident sb \<notin> ident ` set (books st) | None \<Rightarrow> True"
  shows "unique_ids (handleCreate_settled t res st)"
proof (cases "awaited res")
  case None
  then show ?thesis
    using assms(1)
    by (simp add: handleCreate_settled_def unique_books_update distinct_map_filter)
      (simp add: unique_ids_def distinct_map_filter)
next
  case (Some sb)
  with assms(2) have f: "ident sb \<notin> ident ` set (books st)" by simp
  show ?thesis
  proof (cases "findIndex (\<lambda>b. ident b = t) (books st)")
    case None
    with Some assms(1) show ?thesis by (simp add: handleCreate_settled_def)
  next
    case (Some idx)
    have "distinct (map ident ((books st)[idx := (books st ! idx)\<lparr>ident := ident sb\<rparr>]))"
      using assms(1) f by (intro distinct_rename) (simp_all add: unique_ids_def)
    with Some \<open>awaited res = Some sb\<close> show ?thesis
      by (simp add: handleCreate_settled_def unique_books_update)
  qed
qed

lemma unique_handleUpdate: "unique_ids st \<Longrightarrow> unique_ids (snd (handleUpdate i d st))"
  by (cases "findIndex (\<lambda>b. ident b = i) (books st)")
    (simp_all add: handleUpdate_def Let_def unique_books_update map_ident_props,
     simp add: unique_ids_def)

lemma unique_handleUpdate_settled:
  assumes "unique_ids st"
    and "res = Rejected \<longrightarrow> idx < length (books st) \<and> ident (books st ! idx) = ident old"
    and "handleUpdate_settled idx old res st = Some st'"
  shows "unique_ids st'"
proof (cases res)
  case Rejected
  with assms(2) have i: "idx < length (books st)" "ident (books st ! idx) = ident old" by simp_all
  from assms(3) Rejected i(1)
  have "st' = alert Falha_salvar_edicao (renderBooks (st\<lparr>books := (books st)[idx := old]\<rparr>))"
    by (simp add: handleUpdate_settled_def store_at_def)
  then show ?thesis
    using assms(1) i by (simp add: unique_books_update map_ident_same) (simp add: unique_ids_def)
next
  case (Resolved ok body)
  with assms(1,3) show ?thesis by (simp add: handleUpdate_settled_def)
qed

lemma unique_handleDelete: "unique_ids st \<Longrightarrow> unique_ids (snd (handleDelete i st))"
  by (cases "findIndex (\<lambda>b. ident b = i) (books st)")
    (simp_all add: handleDelete_def Let_def unique_books_update,
     simp add: unique_ids_def distinct_splice_out)

lemma unique_handleDelete_settled:
  assumes "unique_ids st" "res = Rejected \<longrightarrow> ident removed \<notin> ident ` set (books st)"
  shows "unique_ids (handleDelete_settled idx removed res st)"
proof (cases res)
  case Rejected
  with assms have "distinct (map ident (splice_in idx removed (books st)))"
    by (intro distinct_splice_in) (simp_all add: unique_ids_def)
  with Rejected show ?thesis
    by (simp add: handleDelete_settled_def unique_books_update)
next
  case (Resolved ok body)
  with assms(1) show ?thesis by (simp add: handleDelete_settled_def)
qed

lemma unique_submit:
  assumes "unique_ids st" "inputId f = None \<longrightarrow> - int now \<notin> ident ` set (books st)"
  shows "unique_ids (snd (submit now f st))"
proof (cases "inputId f")
  case None
  with assms(2) have fr: "- int now \<notin> ident ` set (books st)" by simp
  show ?thesis
    using None assms(1) unique_handleCreate[OF assms(1) fr]
    by (simp add: submit_def Let_def split_beta)
next
  case (Some i)
  then show ?thesis
    using assms(1) unique_handleUpdate[OF assms(1)]
    by (simp add: submit_def Let_def)
qed

lemma unique_fetchBooks_settled:
  assumes "unique_ids st"
    and "case awaited res of Some data \<Rightarrow> distinct (map ident data) | None \<Rightarrow> True"
  shows "unique_ids (snd (fetchBooks_settled draws res st))"
  using assms
  by (cases "awaited res")
    (simp_all add: fetchBooks_settled_def unique_books_update map_ident_enumerate)

lemma fst_await: "fst (await r ps) = snd r"
  by (cases r, cases "fst r") (simp_all add: await_def)

lemma unique_renderBooks_script [simp]: "unique_ids (renderBooks_script st) = unique_ids st"
  by (simp add: unique_ids_def)

lemma unique_showMessage [simp]: "unique_ids (showMessage m l st) = unique_ids st"
  by (simp add: unique_ids_def showMessage_def)

lemma distinct_replace:
  assumes "distinct (map ident xs)" "i < length xs"
    "ident v = ident (xs ! i) \<or> ident v \<notin> ident ` set xs"
  shows "distinct (map ident (xs[i := v]))"
proof (cases "ident v = ident (xs ! i)")
  case True
  with assms(1,2) show ?thesis by (simp add: map_ident_same)
next
  case False
  with assms(3) have "ident v \<notin> set (map ident xs)" by simp
  with assms(1) have "distinct ((map ident xs)[i := ident v])"
    by (simp add: distinct_list_update)
  then show ?thesis by (simp add: map_update)
qed

lemma unique_handleCreate_script:
  "unique_ids st \<Longrightarrow> - int now \<notin> ident ` set (books st) \<Longrightarrow>
   unique_ids (snd (handleCreate_script now d st))"
  by (simp add: handleCreate_script_def Let_def unique_books_update) (simp add: unique_ids_def)

lemma unique_handleCreate_script_settled:
  assumes "unique_ids st"
    and "case tried res of Inr sb \<Rightarrow> ident sb \<notin> ident ` set (books st) | Inl c \<Rightarrow> True"
  shows "unique_ids (handleCreate_script_settled t res st)"
proof (cases "tried res")
  case (Inl c)
  then show ?thesis
    using assms(1)
    by (simp add: handleCreate_script_settled_def unique_books_update)
      (simp add: unique_ids_def distinct_map_filter)
next
  case (Inr sb)
  with assms(2) have f: "ident sb \<notin> ident ` set (books st)" by simp
  show ?thesis
  proof (cases "findIndex (\<lambda>b. ident b = t) (books st)")
    case None
    with Inr assms(1) show ?thesis
      by (simp add: handleCreate_script_settled_def findBookIndexById_def)
  next
    case (Some idx)
    have "distinct (map ident ((books st)[idx := (books st ! idx)\<lparr>ident := ident sb\<rparr>]))"
      using assms(1) f by (intro distinct_rename) (simp_all add: unique_ids_def)
    with Some Inr show ?thesis
      by (simp add: handleCreate_script_settled_def findBookIndexById_def unique_books_update)
  qed
qed

lemma unique_handleUpdate_script:
  "unique_ids st \<Longrightarrow> unique_ids (snd (handleUpdate_script i d st))"
  by (cases "findIndex (\<lambda>b. ident b = i) (books st)")
    (simp_all add: handleUpdate_script_def findBookIndexById_def Let_def unique_books_update
       map_ident_props,
     simp add: unique_ids_def)

lemma unique_handleUpdate_script_settled:
  assumes "unique_ids st" "idx < length (books st)"
    and "case tried res of
           Inr sb \<Rightarrow> ident sb = ident (books st ! idx) \<or> ident sb \<notin> ident ` set (books st)
         | Inl c \<Rightarrow> ident (books st ! idx) = ident old"
    and "handleUpdate_script_settled idx old res st = Some st'"
  shows "unique_ids st'"
proof (cases "tried res")
  case (Inl c)
  with assms(3) have i: "ident (books st ! idx) = ident old" by simp
  from assms(4) Inl assms(2)
  have "st' = showMessage (Erro_atualizar c) Err
          (renderBooks_script (st\<lparr>books := (books st)[idx := old]\<rparr>))"
    by (simp add: handleUpdate_script_settled_def store_at_def)
  then show ?thesis
    using assms(1,2) i by (simp add: unique_books_update map_ident_same) (simp add: unique_ids_def)
next
  case (Inr sb)
  with assms(3)
  have c: "ident sb = ident (books st ! idx) \<or> ident sb \<notin> ident ` set (books st)" by simp
  define merged where
    "merged = \<lparr>ident = ident sb, props = spread (props (books st ! idx)) (props sb)\<rparr>"
  from assms(4) Inr assms(2)
  have s: "st' = showMessage Atualizado_sucesso Success
          (renderBooks_script (st\<lparr>books := (books st)[idx := merged]\<rparr>))"
    by (simp add: handleUpdate_script_settled_def store_at_def Let_def merged_def)
  have "distinct (map ident ((books st)[idx := merged]))"
    using assms(1,2) c by (intro distinct_replace) (simp_all add: unique_ids_def merged_def)
  with s show ?thesis by (simp add: unique_books_update)
qed

lemma unique_handleDelete_script:
  "unique_ids st \<Longrightarrow> unique_ids (snd (handleDelete_script i st))"
  by (cases "findIndex (\<lambda>b. ident b = i) (books st)")
    (simp_all add: handleDelete_script_def findBookIndexById_def Let_def unique_books_update,
     simp add: unique_ids_def distinct_map_filter)

lemma unique_handleDelete_script_settled:
  assumes "unique_ids st" "thrown res \<noteq> None \<longrightarrow> ident removed \<notin> ident ` set (books st)"
  shows "unique_ids (handleDelete_script_settled idx removed res st)"
proof (cases "thrown res")
  case None
  with assms(1) show ?thesis by (simp add: handleDelete_script_settled_def)
next
  case (Some c)
  with assms have "distinct (map ident (splice_in idx removed (books st)))"
    by (intro distinct_splice_in) (simp_all add: unique_ids_def)
  with Some show ?thesis
    by (simp add: handleDelete_script_settled_def unique_books_update)
qed

lemma unique_submit_script:
  assumes "unique_ids st" "inputId f = None \<longrightarrow> - int now \<notin> ident ` set (books st)"
  shows "unique_ids (snd (submit_script now f st))"
proof (cases "inputId f")
  case None
  with assms(2) have fr: "- int now \<notin> ident ` set (books st)" by simp
  show ?thesis
    using None assms(1) unique_handleCreate_script[OF assms(1) fr]
    by (simp add: submit_script_def Let_def split_beta)
next
  case (Some i)
  then show ?thesis
    using assms(1) unique_handleUpdate_script[OF assms(1)]
    by (simp add: submit_script_def Let_def)
qed

lemma unique_fetchBooks_script_settled:
  assumes "unique_ids st"
    and "case tried res of Inr data \<Rightarrow> distinct (map ident data) | Inl c \<Rightarrow> True"
  shows "unique_ids (fetchBooks_script_settled res st)"
  using assms
  by (cases "tried res")
    (simp_all add: fetchBooks_script_settled_def unique_books_update comp_def)

lemma unique_start:
  "unique_ids (fst (start slot)) = (case slot of None \<Rightarrow> True | Some bs \<Rightarrow> distinct (map ident bs))"
  by (cases slot) (simp_all add: start_def fetchBooks_def page_load_def unique_ids_def fetch_def)

lemma unique_start_script: "unique_ids (fst start_script)"
  by (simp add: start_script_def fetchBooks_script_def page_load_def unique_ids_def fetch_def)

lemma submit_script_form_dune:
  "submit_script now form_dune st =
     (case handleCreate_script now
        [(''title'', JStr (units ''Dune'')), (''body'', JStr []),
         (''author'', JStr (units ''Herrick''))] st
      of (p, st') \<Rightarrow> (Some p, st'))"
  by (simp add: submit_script_def validarForm_def validarTitulo_def form_dune_def trim_def
      units_def is_space_def)

lemma run_duas_criacoes:
  "map_option (\<lambda>c. map ident (books (fst c))) (run (duas_criacoes a b) (start None)) = Some [b, a]"
  by (simp add: duas_criacoes_def start_def fetchBooks_def page_load_def submit_form_dune
      await_def handleCreate_def handleCreate_settled_def splice_out_def fetch_def Let_def)

lemma run_script_duas_criacoes:
  "map_option (\<lambda>c. map ident (books (fst c))) (run_script (duas_criacoes a b) start_script) =
     Some [b, a]"
  by (simp add: duas_criacoes_def start_script_def fetchBooks_script_def page_load_def
      submit_script_form_dune await_def handleCreate_script_def handleCreate_script_settled_def
      findBookIndexById_def splice_out_def fetch_def showMessage_def Let_def)

lemma inputId_form_dune: "inputId form_dune = None"
  by (simp add: form_dune_def)

lemma in_place_simps [simp]:
  "in_place None st"
  "in_place (Some Listing) st"
  "in_place (Some Drawing) st"
  "in_place (Some (Creating t)) st"
  "in_place (Some (Updating idx old)) st =
     (idx < length (books st) \<and> ident (books st ! idx) = ident old)"
  "in_place (Some (Deleting idx removed)) st = (ident removed \<notin> ident ` set (books st))"
  by (simp_all add: in_place_def)

lemma nth_not_in_splice_out:
  assumes "distinct (map f xs)" "i < length xs"
  shows "f (xs ! i) \<notin> f ` set (splice_out i xs)"
proof -
  from assms(1) id_take_nth_drop[OF assms(2)]
  have "distinct (map f (take i xs @ xs ! i # drop (Suc i) xs))" by metis
  then show ?thesis by (auto simp: splice_out_def)
qed

lemma in_place_handleUpdate: "in_place (fst (handleUpdate i d st)) (snd (handleUpdate i d st))"
proof (cases "findIndex (\<lambda>b. ident b = i) (books st)")
  case None
  then show ?thesis by (simp add: handleUpdate_def)
next
  case (Some idx)
  from findIndex_Some[OF Some] have "idx < length (books st)" by simp
  with Some show ?thesis
    by (simp add: handleUpdate_def Let_def fetch_def)
qed

lemma in_place_handleDelete:
  assumes "unique_ids st"
  shows "in_place (fst (handleDelete i st)) (snd (handleDelete i st))"
proof (cases "findIndex (\<lambda>b. ident b = i) (books st)")
  case None
  then show ?thesis by (simp add: handleDelete_def)
next
  case (Some idx)
  from findIndex_Some[OF Some] have lt: "idx < length (books st)" by simp
  from assms have "distinct (map ident (books st))" by (simp add: unique_ids_def)
  from nth_not_in_splice_out[OF this lt] Some show ?thesis
    by (simp add: handleDelete_def Let_def fetch_def)
qed

lemma in_place_submit: "in_place (fst (submit now f st)) (snd (submit now f st))"
proof (cases "inputId f")
  case None
  then show ?thesis
    by (simp add: submit_def Let_def split_beta handleCreate_def)
next
  case (Some i)
  then show ?thesis
    using in_place_handleUpdate[of i _ st]
    by (simp add: submit_def Let_def)
qed

lemma in_place_handleUpdate_script:
  "in_place (fst (handleUpdate_script i d st)) (snd (handleUpdate_script i d st))"
proof (cases "findIndex (\<lambda>b. ident b = i) (books st)")
  case None
  then show ?thesis by (simp add: handleUpdate_script_def findBookIndexById_def)
next
  case (Some idx)
  from findIndex_Some[OF Some] have "idx < length (books st)" by simp
  with Some show ?thesis
    by (simp add: handleUpdate_script_def findBookIndexById_def Let_def fetch_def showMessage_def)
qed

lemma in_place_handleDelete_script:
  "in_place (fst (handleDelete_script i st)) (snd (handleDelete_script i st))"
proof (cases "findIndex (\<lambda>b. ident b = i) (books st)")
  case None
  then show ?thesis by (simp add: handleDelete_script_def findBookIndexById_def)
next
  case (Some idx)
  from findIndex_Some[OF Some] have "ident (books st ! idx) = i" by simp
  with Some show ?thesis
    by (auto simp: handleDelete_script_def findBookIndexById_def Let_def fetch_def
        showMessage_def)
qed

lemma in_place_submit_script:
  "in_place (fst (submit_script now f st)) (snd (submit_script now f st))"
proof (cases "inputId f")
  case None
  then show ?thesis
    by (simp add: submit_script_def Let_def split_beta handleCreate_script_def)
next
  case (Some i)
  then show ?thesis
    using in_place_handleUpdate_script[of i _ st]
    by (simp add: submit_script_def Let_def)
qed

lemma in_place_fetchBooks_settled: "in_place (fst (fetchBooks_settled draws res st)) st'"
  by (cases "awaited res") (simp_all add: fetchBooks_settled_def)

lemma orderly_step:
  assumes "unique_ids (fst c)" "in_place l (fst c)" "orderly l e c" "step e c = Some c'"
  shows "unique_ids (fst c') \<and> in_place (newly e c) (fst c')"
proof (cases c)
  case (Pair st ps)
  show ?thesis
  proof (cases e)
    case (Submit now f)
    with Pair assms show ?thesis
      by (auto simp: fst_await unique_submit in_place_submit)
  next
    case (Excluir i)
    with Pair assms show ?thesis
      by (auto simp: fst_await unique_handleDelete in_place_handleDelete)
  next
    case (Settled k res)
    with Pair assms(3) have k: "k < length ps" by simp
    show ?thesis
    proof (cases "ps ! k")
      case Listing
      with Settled Pair assms(4) k show ?thesis by simp
    next
      case Drawing
      with Settled Pair assms(4) k show ?thesis by simp
    next
      case (Creating t)
      with Settled Pair assms k show ?thesis
        by (auto simp: unique_handleCreate_settled)
    next
      case (Updating idx old)
      with Settled Pair assms(4) k obtain z
        where z: "handleUpdate_settled idx old res st = Some z" "c' = (z, splice_out k ps)"
        by auto
      from Updating Settled Pair assms(2,3)
      have "res = Rejected \<longrightarrow> idx < length (books st) \<and> ident (books st ! idx) = ident old"
        by auto
      from unique_handleUpdate_settled[OF _ this z(1)] Pair assms(1) z(2) Settled
      show ?thesis by simp
    next
      case (Deleting idx removed)
      from Deleting Settled Pair assms(2,3)
      have "res = Rejected \<longrightarrow> ident removed \<notin> ident ` set (books st)"
        by auto
      from unique_handleDelete_settled[OF _ this, of idx] Pair assms(1,4) Settled Deleting k
      show ?thesis by auto
    qed
  next
    case (Listed k draws res)
    with Pair assms show ?thesis
      by (auto simp: fst_await unique_fetchBooks_settled in_place_fetchBooks_settled
          split: if_splits)
  next
    case (Timer k)
    with Pair assms show ?thesis by (auto split: if_splits)
  qed
qed

lemma orderly_run_unique:
  "unique_ids (fst c) \<Longrightarrow> in_place l (fst c) \<Longrightarrow> orderly_run l es c \<Longrightarrow>
   run es c = Some c' \<Longrightarrow> unique_ids (fst c')"
proof (induction es arbitrary: c l)
  case Nil
  then show ?case by simp
next
  case (Cons e es)
  from Cons.prems(4) obtain c1 where s: "step e c = Some c1" and r: "run es c1 = Some c'"
    by (auto split: option.splits)
  from Cons.prems(3) s have o: "orderly l e c" "orderly_run (newly e c) es c1" by simp_all
  from orderly_step[OF Cons.prems(1,2) o(1) s]
  have "unique_ids (fst c1)" "in_place (newly e c) (fst c1)" by simp_all
  from Cons.IH[OF this o(2) r] show ?case .
qed

lemma orderly_step_script:
  assumes "unique_ids (fst c)" "in_place l (fst c)" "orderly_script l e c"
    "step_script e c = Some c'"
  shows "unique_ids (fst c') \<and> in_place (newly_script e c) (fst c')"
proof (cases c)
  case (Pair st ps)
  show ?thesis
  proof (cases e)
    case (Submit now f)
    with Pair assms show ?thesis
      by (auto simp: fst_await unique_submit_script in_place_submit_script)
  next
    case (Excluir i)
    with Pair assms show ?thesis
      by (auto simp: fst_await unique_handleDelete_script in_place_handleDelete_script)
  next
    case (Settled k res)
    with Pair assms(3) have k: "k < length ps" by simp
    show ?thesis
    proof (cases "ps ! k")
      case Listing
      with Settled Pair assms(4) k show ?thesis by simp
    next
      case Drawing
      with Settled Pair assms(4) k show ?thesis by simp
    next
      case (Creating t)
      with Settled Pair assms k show ?thesis
        by (auto simp: unique_handleCreate_script_settled)
    next
      case (Updating idx old)
      with Settled Pair assms(4) k obtain z
        where z: "handleUpdate_script_settled idx old res st = Some z"
          "c' = (z, splice_out k ps)"
        by auto
      from Updating Settled Pair assms(2,3)
      have i: "idx < length (books st)" and o: "ident (books st ! idx) = ident old"
        and t: "case tried res of Inr sb \<Rightarrow> ident sb = ident old | Inl c \<Rightarrow> True"
        by auto
      from o t have "case tried res of
           Inr sb \<Rightarrow> ident sb = ident (books st ! idx) \<or> ident sb \<notin> ident ` set (books st)
         | Inl c \<Rightarrow> ident (books st ! idx) = ident old"
        by (cases "tried res") simp_all
      from unique_handleUpdate_script_settled[OF _ i this z(1)] Pair assms(1) z(2) Settled
      show ?thesis by simp
    next
      case (Deleting idx removed)
      from Deleting Settled Pair assms(2,3)
      have "thrown res \<noteq> None \<longrightarrow> ident removed \<notin> ident ` set (books st)"
        by auto
      from unique_handleDelete_script_settled[OF _ this, of idx] Pair assms(1,4) Settled
        Deleting k
      show ?thesis by auto
    qed
  next
    case (Listed k draws res)
    with Pair assms show ?thesis
      by (auto simp: unique_fetchBooks_script_settled split: if_splits)
  next
    case (Timer k)
    with Pair assms show ?thesis by simp
  qed
qed

lemma orderly_run_script_unique:
  "unique_ids (fst c) \<Longrightarrow> in_place l (fst c) \<Longrightarrow> orderly_run_script l es c \<Longrightarrow>
   run_script es c = Some c' \<Longrightarrow> unique_ids (fst c')"
proof (induction es arbitrary: c l)
  case Nil
  then show ?case by simp
next
  case (Cons e es)
  from Cons.prems(4) obtain c1 where s: "step_script e c = Some c1"
    and r: "run_script es c1 = Some c'"
    by (auto split: option.splits)
  from Cons.prems(3) s
  have o: "orderly_script l e c" "orderly_run_script (newly_script e c) es c1" by simp_all
  from orderly_step_script[OF Cons.prems(1,2) o(1) s]
  have "unique_ids (fst c1)" "in_place (newly_script e c) (fst c1)" by simp_all
  from Cons.IH[OF this o(2) r] show ?case .
qed


lemma inputId_form_ulisses: "inputId form_ulisses = Some 2"
  by (simp add: form_ulisses_def)

lemma run_tarefas:
  "map_option (\<lambda>c. map ident (books (fst c))) (run (lista_chega # Timer 0 # tarefas) (start None)) =
     Some [101, 1]"
  by (simp add: tarefas_def lista_chega_def start_def fetchBooks_def fetchBooks_settled_def
      livro_of_item_def page_load_def submit_form_dune submit_form_ulisses await_def
      handleCreate_def handleCreate_settled_def handleUpdate_def handleUpdate_settled_def
      handleDelete_def handleDelete_settled_def store_at_def splice_out_def splice_in_def
      fetch_def alert_def Let_def livro1_def livro2_def prop_of_def)

lemma orderly_tarefas: "orderly_run None (lista_chega # Timer 0 # tarefas) (start None)"
  by (simp add: tarefas_def lista_chega_def start_def fetchBooks_def fetchBooks_settled_def
      livro_of_item_def page_load_def submit_form_dune submit_form_ulisses await_def
      handleCreate_def handleCreate_settled_def handleUpdate_def handleUpdate_settled_def
      handleDelete_def handleDelete_settled_def store_at_def splice_out_def splice_in_def
      fetch_def alert_def Let_def livro1_def livro2_def inputId_form_dune inputId_form_ulisses prop_of_def)

lemma run_script_tarefas:
  "map_option (\<lambda>c. map ident (books (fst c))) (run_script (lista_chega # tarefas) start_script) =
     Some [101, 1]"
  by (simp add: tarefas_def lista_chega_def start_script_def fetchBooks_script_def
      fetchBooks_script_settled_def page_load_def submit_script_form_dune
      submit_script_form_ulisses await_def
      handleCreate_script_def handleCreate_script_settled_def
      handleUpdate_script_def handleUpdate_script_settled_def
      handleDelete_script_def handleDelete_script_settled_def findBookIndexById_def
      store_at_def splice_out_def splice_in_def
      fetch_def showMessage_def Let_def livro1_def livro2_def prop_of_def)

lemma orderly_script_tarefas: "orderly_run_script None (lista_chega # tarefas) start_script"
  by (simp add: tarefas_def lista_chega_def start_script_def fetchBooks_script_def
      fetchBooks_script_settled_def page_load_def submit_script_form_dune
      submit_script_form_ulisses await_def
      handleCreate_script_def handleCreate_script_settled_def
      handleUpdate_script_def handleUpdate_script_settled_def
      handleDelete_script_def handleDelete_script_settled_def findBookIndexById_def
      store_at_def splice_out_def splice_in_def
      fetch_def showMessage_def Let_def livro1_def livro2_def inputId_form_dune
      inputId_form_ulisses prop_of_def)


lemma run_same_millisecond:
  "map_option (\<lambda>c. map ident (books (fst c)))
     (run [Submit 1700000000000 form_dune, Submit 1700000000000 form_dune] (start None)) =
     Some [- 1700000000000, - 1700000000000]"
  by (simp add: start_def fetchBooks_def page_load_def submit_form_dune await_def
      handleCreate_def fetch_def Let_def)

lemma run_list_repeats:
  "map_option (\<lambda>c. map ident (books (fst c)))
     (run [Listed 0 (\<lambda>k. (0, 0)) (Resolved True (Some [livro1, livro1]))] (start None)) =
     Some [1, 1]"
  by (simp add: start_def fetchBooks_def fetchBooks_settled_def page_load_def await_def
      splice_out_def fetch_def livro_of_item_def livro1_def)

text \<open>
  C7 (as amended). From a configuration whose array has pairwise distinct
  identities, every orderly run of either page, whatever the interleaving of the
  handlers' first parts and of the settling of their requests, ends with pairwise
  distinct identities. Orderly means: the placeholder of a creation is the identity of
  no book when it is submitted; the identity a response commits a creation under is
  the identity of no book when it arrives; a list that arrives has pairwise distinct
  identities; and the failure of an update's or deletion's request is the task right
  after the one that sent it (on script.js so is the success of an update's, and its
  response then carries the identity of the book updated). Nothing is said of a
  rollback that runs after other tasks: see C4. The main page starts with distinct
  identities exactly when the snapshot it reads has them, script.js always.
\<close>

theorem orderly_runs_keep_identities_distinct:
  "(unique_ids (fst c) \<and> orderly_run None es c \<and> run es c = Some c' \<longrightarrow>
      unique_ids (fst c')) \<and>
   (unique_ids (fst c) \<and> orderly_run_script None es c \<and> run_script es c = Some c' \<longrightarrow>
      unique_ids (fst c')) \<and>
   unique_ids (fst (start slot)) =
     (case slot of None \<Rightarrow> True | Some bs \<Rightarrow> distinct (map ident bs)) \<and>
   unique_ids (fst start_script)"
  using orderly_run_unique[of c None es c'] orderly_run_script_unique[of c None es c']
    unique_start[of slot] unique_start_script
  by simp

theorem orderly_runs_keep_identities_distinct_witness:
  "unique_ids (fst (start None)) \<and>
   orderly_run None (lista_chega # Timer 0 # tarefas) (start None) \<and>
   map_option (\<lambda>c. map ident (books (fst c))) (run (lista_chega # Timer 0 # tarefas) (start None)) =
     Some [101, 1] \<and>
   map_option (\<lambda>c. unique_ids (fst c)) (run (lista_chega # Timer 0 # tarefas) (start None)) =
     Some True \<and>
   unique_ids (fst start_script) \<and>
   orderly_run_script None (lista_chega # tarefas) start_script \<and>
   map_option (\<lambda>c. map ident (books (fst c))) (run_script (lista_chega # tarefas) start_script) =
     Some [101, 1] \<and>
   map_option (\<lambda>c. unique_ids (fst c)) (run_script (lista_chega # tarefas) start_script) =
     Some True"
proof -
  have u: "unique_ids (fst (start None))" by (simp add: unique_start)
  obtain c where c: "run (lista_chega # Timer 0 # tarefas) (start None) = Some c"
    using run_tarefas by auto
  obtain cs where cs: "run_script (lista_chega # tarefas) start_script = Some cs"
    using run_script_tarefas by auto
  have 1: "unique_ids (fst c)"
    using orderly_runs_keep_identities_distinct
      [of "start None" "lista_chega # Timer 0 # tarefas" c None] u orderly_tarefas c
    by blast
  have 2: "unique_ids (fst cs)"
    using orderly_runs_keep_identities_distinct
      [of start_script "lista_chega # tarefas" cs None]
      unique_start_script orderly_script_tarefas cs
    by blast
  show ?thesis
    using u orderly_tarefas orderly_script_tarefas c cs 1 2 run_tarefas run_script_tarefas
      unique_start_script
    by simp
qed

text \<open>
  The specification has the invariant hold in every reachable state. The pages
  compare no incoming identity with the array: two creations both answered with
  identity 101 leave two books of identity 101, two creations of the same millisecond
  leave two books under one placeholder, and a list that repeats an identity is taken
  as it is.
\<close>

theorem identities_repeat_counterexample:
  "map_option (\<lambda>c. map ident (books (fst c))) (run (duas_criacoes 101 101) (start None)) =
     Some [101, 101] \<and>
   map_option (\<lambda>c. map ident (books (fst c)))
     (run [Submit 1700000000000 form_dune, Submit 1700000000000 form_dune] (start None)) =
     Some [- 1700000000000, - 1700000000000] \<and>
   map_option (\<lambda>c. map ident (books (fst c)))
     (run [Listed 0 (\<lambda>k. (0, 0)) (Resolved True (Some [livro1, livro1]))] (start None)) =
     Some [1, 1]"
  using run_duas_criacoes[of 101 101] run_same_millisecond run_list_repeats
  by (simp only: simp_thms)

end
